theory Spec2Isabelle
  imports Complex_Main "HOL-Library.Sublist" "HOL-Library.Char_ord" "HOL-Library.List_Lexorder"
    "HOL-Library.Product_Lexorder" "HOL-Library.Multiset"
begin

section \<open>Python values and exceptions\<close>

text \<open>
  The exceptions the modelled functions can raise.  \<open>HTTPError\<close>, \<open>ConnectionError\<close>
  are the \<open>requests\<close> exceptions (both are \<open>RequestException\<close>s), \<open>JSONDecodeError\<close>
  is raised by \<open>response.json()\<close>, \<open>IntegrityError\<close> and \<open>OperationalError\<close> and
  \<open>ProgrammingError\<close> by \<open>sqlite3\<close>.
\<close>

datatype py_error =
    KeyError | TypeError | ValueError | AttributeError | IndexError | ZeroDivisionError
  | HTTPError | ConnectionError | JSONDecodeError
  | IntegrityError | OperationalError | ProgrammingError | OverflowError | OSError

definition ebind :: "py_error + 'a \<Rightarrow> ('a \<Rightarrow> py_error + 'b) \<Rightarrow> py_error + 'b" where
  "ebind m f = (case m of Inl e \<Rightarrow> Inl e | Inr x \<Rightarrow> f x)"

text \<open>
  A decoded JSON value, as \<open>response.json()\<close> returns it: \<open>None\<close>, \<open>bool\<close>, \<open>int\<close>,
  \<open>str\<close>, \<open>list\<close> and \<open>dict\<close> (keys are strings, in insertion order; lookups take
  the first binding).  Fractional numbers are left out of the model; strings are ASCII.
\<close>

datatype json =
    JNull | JBool bool | JInt int | JStr string | JList "json list"
  | JDict "(string \<times> json) list"

text \<open>Truthiness: what \<open>not x\<close> and \<open>if x\<close> test.\<close>

fun truthy :: "json \<Rightarrow> bool" where
  "truthy JNull = False"
| "truthy (JBool b) = b"
| "truthy (JInt n) = (n \<noteq> 0)"
| "truthy (JStr s) = (s \<noteq> [])"
| "truthy (JList xs) = (xs \<noteq> [])"
| "truthy (JDict kvs) = (kvs \<noteq> [])"

fun is_dict :: "json \<Rightarrow> bool" where
  "is_dict (JDict kvs) = True"
| "is_dict _ = False"

fun is_list :: "json \<Rightarrow> bool" where
  "is_list (JList xs) = True"
| "is_list _ = False"

fun py_substr :: "string \<Rightarrow> string \<Rightarrow> bool" where
  "py_substr p [] = (p = [])"
| "py_substr p (c # cs) = (prefix p (c # cs) \<or> py_substr p cs)"

text \<open>\<open>k in x\<close> for a string \<open>k\<close>: key test on a dict, element test on a list, substring
  test on a string, \<open>TypeError\<close> on anything else.\<close>

fun py_contains :: "string \<Rightarrow> json \<Rightarrow> py_error + bool" where
  "py_contains k (JDict kvs) = Inr (k \<in> set (map fst kvs))"
| "py_contains k (JList xs) = Inr (JStr k \<in> set xs)"
| "py_contains k (JStr s) = Inr (py_substr k s)"
| "py_contains k _ = Inl TypeError"

text \<open>\<open>x[k]\<close> for a string \<open>k\<close>.\<close>

fun py_getitem_str :: "json \<Rightarrow> string \<Rightarrow> py_error + json" where
  "py_getitem_str (JDict kvs) k = (case map_of kvs k of None \<Rightarrow> Inl KeyError | Some v \<Rightarrow> Inr v)"
| "py_getitem_str _ k = Inl TypeError"

text \<open>\<open>x[i]\<close> for a natural number \<open>i\<close>: no JSON dict has an integer key.\<close>

fun py_getitem_nat :: "json \<Rightarrow> nat \<Rightarrow> py_error + json" where
  "py_getitem_nat (JList xs) i = (if i < length xs then Inr (xs ! i) else Inl IndexError)"
| "py_getitem_nat (JStr s) i = (if i < length s then Inr (JStr [s ! i]) else Inl IndexError)"
| "py_getitem_nat (JDict kvs) i = Inl KeyError"
| "py_getitem_nat _ i = Inl TypeError"

text \<open>\<open>x.get(k, default)\<close>: only dicts have the method.\<close>

fun py_get :: "json \<Rightarrow> string \<Rightarrow> json \<Rightarrow> py_error + json" where
  "py_get (JDict kvs) k d = Inr (case map_of kvs k of None \<Rightarrow> d | Some v \<Rightarrow> v)"
| "py_get _ k d = Inl AttributeError"

fun py_len :: "json \<Rightarrow> py_error + nat" where
  "py_len (JStr s) = Inr (length s)"
| "py_len (JList xs) = Inr (length xs)"
| "py_len (JDict kvs) = Inr (length kvs)"
| "py_len _ = Inl TypeError"

text \<open>
  \<open>int(x)\<close>.  The parser of decimal strings is the parameter \<open>s2i\<close> (\<open>None\<close> where
  Python raises \<open>ValueError\<close>).
\<close>

fun py_int :: "(string \<Rightarrow> int option) \<Rightarrow> json \<Rightarrow> py_error + int" where
  "py_int s2i (JInt n) = Inr n"
| "py_int s2i (JBool b) = Inr (if b then 1 else 0)"
| "py_int s2i (JStr s) = (case s2i s of None \<Rightarrow> Inl ValueError | Some n \<Rightarrow> Inr n)"
| "py_int s2i _ = Inl TypeError"

text \<open>\<open>str(n)\<close> for an integer: its decimal digits.\<close>

definition digit_char :: "nat \<Rightarrow> char" where
  "digit_char d = ''0123456789'' ! d"

function str_nat :: "nat \<Rightarrow> string" where
  "str_nat n = (if n < 10 then [digit_char n] else str_nat (n div 10) @ [digit_char (n mod 10)])"
  by pat_completeness auto
termination
  by (relation "measure id") auto

declare str_nat.simps [simp del]

definition py_str :: "int \<Rightarrow> string" where
  "py_str i = (if i < 0 then CHR ''-'' # str_nat (nat (- i)) else str_nat (nat i))"

section \<open>utils.py\<close>

text \<open>
  A Python number: an \<open>int\<close> (unbounded) or a \<open>float\<close>.  A float is represented by the
  real number it denotes: rounding, infinities and NaN, which raise nothing in \<open>-\<close>, \<open>/\<close>
  and \<open>*\<close>, are not modelled.
\<close>

datatype number = PyInt int | PyFloat real

fun num_val :: "number \<Rightarrow> real" where
  "num_val (PyInt n) = real_of_int n"
| "num_val (PyFloat x) = x"

text \<open>
  What does raise: converting an \<open>int\<close> to \<open>float\<close> (in mixed arithmetic) and the true
  division of two \<open>int\<close>s raise \<open>OverflowError\<close> when the result rounds beyond the largest
  float \<open>2 ^ 1024 - 2 ^ 971\<close>, that is from \<open>2 ^ 1024 - 2 ^ 970\<close> on; a division by zero
  raises \<open>ZeroDivisionError\<close>.
\<close>

definition float_overflow :: real where
  "float_overflow = 2 ^ 1024 - 2 ^ 970"

definition to_float :: "int \<Rightarrow> py_error + real" where
  "to_float n =
     (if float_overflow \<le> \<bar>real_of_int n\<bar> then Inl OverflowError else Inr (real_of_int n))"

fun py_sub :: "number \<Rightarrow> number \<Rightarrow> py_error + number" where
  "py_sub (PyInt a) (PyInt b) = Inr (PyInt (a - b))"
| "py_sub (PyFloat a) (PyFloat b) = Inr (PyFloat (a - b))"
| "py_sub (PyInt a) (PyFloat b) = ebind (to_float a) (\<lambda>x. Inr (PyFloat (x - b)))"
| "py_sub (PyFloat a) (PyInt b) = ebind (to_float b) (\<lambda>y. Inr (PyFloat (a - y)))"

definition float_div :: "real \<Rightarrow> real \<Rightarrow> py_error + number" where
  "float_div a b = (if b = 0 then Inl ZeroDivisionError else Inr (PyFloat (a / b)))"

fun py_truediv :: "number \<Rightarrow> number \<Rightarrow> py_error + number" where
  "py_truediv (PyInt a) (PyInt b) =
     (if b = 0 then Inl ZeroDivisionError
      else if float_overflow \<le> \<bar>real_of_int a / real_of_int b\<bar> then Inl OverflowError
      else Inr (PyFloat (real_of_int a / real_of_int b)))"
| "py_truediv (PyFloat a) (PyFloat b) = float_div a b"
| "py_truediv (PyInt a) (PyFloat b) = ebind (to_float a) (\<lambda>x. float_div x b)"
| "py_truediv (PyFloat a) (PyInt b) = ebind (to_float b) (\<lambda>y. float_div a y)"

fun py_mul_100 :: "number \<Rightarrow> number" where
  "py_mul_100 (PyInt n) = PyInt (n * 100)"
| "py_mul_100 (PyFloat x) = PyFloat (x * 100)"

definition calculate_trend :: "number \<Rightarrow> number \<Rightarrow> py_error + number" where
  "calculate_trend current previous =
     (if num_val previous = 0 then Inr (PyInt (if num_val current > 0 then 100 else 0))
      else ebind (py_sub current previous) (\<lambda>diff.
             ebind (py_truediv diff previous) (\<lambda>q. Inr (py_mul_100 q))))"

fun is_float :: "number \<Rightarrow> bool" where
  "is_float (PyFloat x) = True"
| "is_float (PyInt n) = False"

section \<open>load/load\_players\_data.py\<close>

text \<open>
  What the loader does to the outside world: the endpoints it requests through
  \<open>yahoo_api.make_request\<close> and the arguments of its \<open>time.sleep\<close> calls, both in order.
\<close>

record loader_trace =
  requests :: "string list"
  sleeps :: "real list"

definition no_trace :: loader_trace where
  "no_trace = \<lparr>requests = [], sleeps = []\<rparr>"

text \<open>
  \<open>wait_with_backoff(retry_count, base_wait=2)\<close> sleeps for
  \<open>base_wait * (2 ** retry_count) + random.uniform(0, 1)\<close>.  The random source is the
  parameter \<open>rnd\<close>: \<open>rnd i\<close> is the \<open>i\<close>-th draw.  The only caller passes a counter that
  starts at 0 and is incremented, so \<open>retry_count\<close> is a natural number.
\<close>

definition wait_with_backoff :: "(nat \<Rightarrow> real) \<Rightarrow> nat \<Rightarrow> real \<Rightarrow> loader_trace \<Rightarrow> loader_trace" where
  "wait_with_backoff rnd retry_count base_wait tr =
     (let wait_time = base_wait * (2 ^ retry_count) + rnd (length (sleeps tr))
      in tr\<lparr>sleeps := sleeps tr @ [wait_time]\<rparr>)"

text \<open>The value \<open>load_players_batch\<close> returns: a pair, or \<open>None\<close> when the loop is
  left without a \<open>return\<close>.\<close>

datatype batch_ret = RetNone | RetPair "json option" int

datatype attempt_outcome = Done batch_ret | SoftFail | Raised py_error

text \<open>The body of the \<open>try\<close> block after \<open>make_request\<close> has returned \<open>players_data\<close>.\<close>

definition inspect_batch :: "(string \<Rightarrow> int option) \<Rightarrow> json \<Rightarrow> py_error + attempt_outcome" where
  "inspect_batch s2i players_data =
     (if \<not> truthy players_data then Inr SoftFail
      else ebind (py_contains ''fantasy_content'' players_data) (\<lambda>has_content.
        if \<not> has_content then Inr SoftFail
        else ebind (py_getitem_str players_data ''fantasy_content'') (\<lambda>content.
          ebind (py_get content ''game'' (JList [JDict []])) (\<lambda>game_data.
          ebind (py_len game_data) (\<lambda>n.
            if n < 2 then Inr SoftFail
            else ebind (py_getitem_nat game_data 1) (\<lambda>game1.
              ebind (py_get game1 ''players'' (JDict [])) (\<lambda>players.
                if \<not> truthy players \<or> \<not> is_dict players then Inr (Done (RetPair None 0))
                else ebind (py_get players ''count'' (JInt 0)) (\<lambda>c.
                  ebind (py_int s2i c) (\<lambda>batch_count.
                    Inr (Done (RetPair (Some players) batch_count)))))))))))"

definition attempt :: "(string \<Rightarrow> int option) \<Rightarrow> py_error + json \<Rightarrow> attempt_outcome" where
  "attempt s2i response =
     (case ebind response (inspect_batch s2i) of Inl e \<Rightarrow> Raised e | Inr out \<Rightarrow> out)"

fun failed_attempt :: "attempt_outcome \<Rightarrow> bool" where
  "failed_attempt (Done r) = False"
| "failed_attempt _ = True"

text \<open>
  The \<open>while retry_count <= max_retries\<close> loop.  \<open>api i endpoint\<close> is what the \<open>i\<close>-th
  call of \<open>make_request\<close> does: it raises or returns a decoded response.  A failed
  attempt (an exception, or one of the two checks that retry) increments the counter and
  waits when \<open>retry_count < max_retries\<close>, and returns \<open>(None, 0)\<close> otherwise.
\<close>

function load_batch_loop ::
  "(nat \<Rightarrow> string \<Rightarrow> py_error + json) \<Rightarrow> (nat \<Rightarrow> real) \<Rightarrow> (string \<Rightarrow> int option) \<Rightarrow>
   string \<Rightarrow> int \<Rightarrow> nat \<Rightarrow> loader_trace \<Rightarrow> batch_ret \<times> loader_trace" where
  "load_batch_loop api rnd s2i endpoint max_retries retry_count tr =
     (if int retry_count \<le> max_retries then
        (let tr1 = tr\<lparr>requests := requests tr @ [endpoint]\<rparr> in
         case attempt s2i (api (length (requests tr)) endpoint) of
           Done r \<Rightarrow> (r, tr1)
         | _ \<Rightarrow>
            if int retry_count < max_retries
            then load_batch_loop api rnd s2i endpoint max_retries (Suc retry_count)
                   (wait_with_backoff rnd (Suc retry_count) 2 tr1)
            else (RetPair None 0, tr1))
      else (RetNone, tr))"
  by pat_completeness auto
termination
  by (relation "measure (\<lambda>(api, rnd, s2i, endpoint, max_retries, retry_count, tr).
        nat (max_retries + 1 - int retry_count))") auto

declare load_batch_loop.simps [simp del]

definition load_players_batch ::
  "(nat \<Rightarrow> string \<Rightarrow> py_error + json) \<Rightarrow> (nat \<Rightarrow> real) \<Rightarrow> (string \<Rightarrow> int option) \<Rightarrow>
   string \<Rightarrow> int \<Rightarrow> int \<Rightarrow> int \<Rightarrow> batch_ret \<times> loader_trace" where
  "load_players_batch api rnd s2i game_key start count' max_retries =
     load_batch_loop api rnd s2i
       (''/game/'' @ game_key @ ''/players;start='' @ py_str start @ '';count='' @ py_str count')
       max_retries 0 no_trace"

section \<open>db/database.py: the SQL statements\<close>

text \<open>
  A table is a list of rows, each with its rowid; \<open>seq\<close> is the table's entry in
  \<open>sqlite_sequence\<close> (the largest rowid an \<open>AUTOINCREMENT\<close> table has ever used).  A row
  holds one value per column of the schema, in the order of the \<open>CREATE TABLE\<close>
  statement (the \<open>id INTEGER PRIMARY KEY AUTOINCREMENT\<close> column is the rowid).  Values
  are stored as they are bound: the conversions of SQLite's column affinities are not
  modelled, and foreign keys are not enforced (SQLite's default).
\<close>

datatype sqlval = SNull | SInt int | SText string

type_synonym row = "sqlval list"

record table =
  rows :: "(nat \<times> row) list"
  seq :: nat

definition empty_table :: table where
  "empty_table = \<lparr>rows = [], seq = 0\<rparr>"

type_synonym db = "string \<Rightarrow> table"

text \<open>What a \<open>CREATE TABLE\<close> statement declares: the columns, the \<open>PRIMARY KEY\<close> and
  \<open>UNIQUE\<close> constraints other than the rowid, the \<open>NOT NULL\<close> columns.\<close>

record schema =
  table_name :: string
  columns :: "string list"
  unique_keys :: "string list list"
  not_null :: "string list"
  autoincrement :: bool

definition col :: "schema \<Rightarrow> row \<Rightarrow> string \<Rightarrow> sqlval" where
  "col sch r c = (case map_of (zip (columns sch) r) c of None \<Rightarrow> SNull | Some v \<Rightarrow> v)"

text \<open>
  Two rows collide on a uniqueness constraint when they agree on all its columns and
  none of the values is \<open>NULL\<close> (SQLite takes \<open>NULL\<close>s as distinct, also in a
  \<open>TEXT PRIMARY KEY\<close>).
\<close>

definition key_conflict :: "schema \<Rightarrow> row \<Rightarrow> row \<Rightarrow> bool" where
  "key_conflict sch new old =
     list_ex (\<lambda>k. list_all (\<lambda>c. col sch new c \<noteq> SNull \<and> col sch old c = col sch new c) k)
       (unique_keys sch)"

definition next_rowid :: "schema \<Rightarrow> table \<Rightarrow> (nat \<times> row) list \<Rightarrow> nat" where
  "next_rowid sch t remaining =
     Suc (fold max (map fst remaining) (if autoincrement sch then seq t else 0))"

datatype on_conflict = Abort | Replace

text \<open>Preparing \<open>INSERT INTO t (cols) ...\<close> fails when \<open>t\<close> has no such column.\<close>

definition prepare_insert :: "schema \<Rightarrow> string list \<Rightarrow> py_error + unit" where
  "prepare_insert sch cols =
     (if list_all (\<lambda>c. c \<in> set (columns sch)) cols then Inr () else Inl OperationalError)"

text \<open>
  \<open>INSERT INTO\<close> (\<open>Abort\<close>) and \<open>INSERT OR REPLACE INTO\<close> (\<open>Replace\<close>) of one row.  A
  \<open>NULL\<close> in a \<open>NOT NULL\<close> column without default is an \<open>IntegrityError\<close> under both.
  On a uniqueness conflict \<open>Abort\<close> raises and \<open>Replace\<close> deletes the colliding rows;
  the new row then gets a fresh rowid.  (Every statement of this file that is accepted
  names all columns, so a column left out is simply \<open>NULL\<close> here.)
\<close>

definition sql_insert :: "on_conflict \<Rightarrow> schema \<Rightarrow> string list \<Rightarrow> row \<Rightarrow> db \<Rightarrow> py_error + db" where
  "sql_insert oc sch cols vals dbs =
     (let new = map (\<lambda>c. case map_of (zip cols vals) c of None \<Rightarrow> SNull | Some v \<Rightarrow> v)
                  (columns sch);
          t = dbs (table_name sch)
      in if list_ex (\<lambda>c. col sch new c = SNull) (not_null sch) then Inl IntegrityError
         else if oc = Abort \<and> list_ex (\<lambda>ir. key_conflict sch new (snd ir)) (rows t)
         then Inl IntegrityError
         else
           (let kept = filter (\<lambda>ir. \<not> key_conflict sch new (snd ir)) (rows t);
                rid = next_rowid sch t kept
            in Inr (dbs(table_name sch :=
                 \<lparr>rows = kept @ [(rid, new)],
                  seq = (if autoincrement sch then rid else seq t)\<rparr>))))"

text \<open>\<open>WHERE c1 = ? AND c2 = ? ...\<close>: a comparison with \<open>NULL\<close> is never true.\<close>

definition where_eq :: "schema \<Rightarrow> (string \<times> sqlval) list \<Rightarrow> row \<Rightarrow> bool" where
  "where_eq sch conds r = list_all (\<lambda>cv. snd cv \<noteq> SNull \<and> col sch r (fst cv) = snd cv) conds"

text \<open>\<open>SELECT id FROM t WHERE ...\<close> followed by \<open>fetchone()\<close>.\<close>

definition sql_select_id :: "schema \<Rightarrow> (string \<times> sqlval) list \<Rightarrow> db \<Rightarrow> nat option" where
  "sql_select_id sch conds dbs =
     map_option fst (find (\<lambda>ir. where_eq sch conds (snd ir)) (rows (dbs (table_name sch))))"

text \<open>\<open>UPDATE t SET c = ?, ... WHERE ...\<close>, for columns that carry no constraint.\<close>

definition sql_update ::
  "schema \<Rightarrow> (string \<times> sqlval) list \<Rightarrow> (string \<times> sqlval) list \<Rightarrow> db \<Rightarrow> db" where
  "sql_update sch sets conds dbs =
     (let t = dbs (table_name sch);
          upd = (\<lambda>r. map (\<lambda>cv. case map_of sets (fst cv) of None \<Rightarrow> snd cv | Some v \<Rightarrow> v)
                        (zip (columns sch) r))
      in dbs(table_name sch :=
           t\<lparr>rows := map (\<lambda>ir. if where_eq sch conds (snd ir) then (fst ir, upd (snd ir)) else ir)
                         (rows t)\<rparr>))"

text \<open>
  Binding a Python value to a \<open>?\<close>: \<open>None\<close>, \<open>bool\<close>/\<open>int\<close> (64 bits) and \<open>str\<close> are
  supported, a list or dict is not.
\<close>

fun bind :: "json \<Rightarrow> py_error + sqlval" where
  "bind JNull = Inr SNull"
| "bind (JBool b) = Inr (SInt (if b then 1 else 0))"
| "bind (JInt n) = (if - (2 ^ 63) \<le> n \<and> n < 2 ^ 63 then Inr (SInt n) else Inl OverflowError)"
| "bind (JStr s) = Inr (SText s)"
| "bind (JList xs) = Inl ProgrammingError"
| "bind (JDict kvs) = Inl ProgrammingError"

text \<open>Left-to-right evaluation that stops at the first exception.\<close>

fun emap :: "('a \<Rightarrow> py_error + 'b) \<Rightarrow> 'a list \<Rightarrow> py_error + 'b list" where
  "emap f [] = Inr []"
| "emap f (x # xs) = ebind (f x) (\<lambda>y. ebind (emap f xs) (\<lambda>ys. Inr (y # ys)))"

section \<open>db/database.py: the Database object\<close>

text \<open>
  The state of a \<open>Database\<close>: what the last commit left (\<open>committed\<close>, which a rollback
  restores), what the connection sees (\<open>working\<close>), whether a transaction is open,
  whether \<open>close()\<close> has been called (then \<open>self.conn\<close> is \<open>None\<close>), and the exceptions
  passed to \<open>logger.error\<close>.
\<close>

record database =
  committed :: db
  working :: db
  in_txn :: bool
  closed :: bool
  logged :: "py_error list"

definition new_database :: database where
  "new_database = \<lparr>committed = (\<lambda>n. empty_table), working = (\<lambda>n. empty_table),
     in_txn = False, closed = False, logged = []\<rparr>"

text \<open>A statement of a method body: it raises or yields a value, and changes the state.\<close>

type_synonym 'a stm = "database \<Rightarrow> (py_error + 'a) \<times> database"

definition sbind :: "'a stm \<Rightarrow> ('a \<Rightarrow> 'b stm) \<Rightarrow> 'b stm" where
  "sbind m f d = (case m d of (Inl e, d') \<Rightarrow> (Inl e, d') | (Inr x, d') \<Rightarrow> f x d')"

definition pure_e :: "py_error + 'a \<Rightarrow> 'a stm" where
  "pure_e v d = (v, d)"

text \<open>
  \<open>self.cursor.execute\<close> of an INSERT or UPDATE: on a closed database it raises
  \<open>ProgrammingError\<close>; otherwise the \<open>sqlite3\<close> module opens a transaction if none is
  open and runs the statement, which either fails as a whole or changes \<open>working\<close>.
\<close>

definition cursor_execute :: "(db \<Rightarrow> py_error + db) \<Rightarrow> unit stm" where
  "cursor_execute stmt d =
     (if closed d then (Inl ProgrammingError, d)
      else case stmt (working d) of
             Inl e \<Rightarrow> (Inl e, d\<lparr>in_txn := True\<rparr>)
           | Inr w \<Rightarrow> (Inr (), d\<lparr>working := w, in_txn := True\<rparr>))"

text \<open>\<open>self.cursor.execute\<close> of a SELECT: no transaction is opened.\<close>

definition cursor_query :: "(db \<Rightarrow> py_error + 'a) \<Rightarrow> 'a stm" where
  "cursor_query q d = (if closed d then (Inl ProgrammingError, d) else (q (working d), d))"

definition conn_begin :: "unit stm" where
  "conn_begin d =
     (if closed d then (Inl AttributeError, d)
      else if in_txn d then (Inl OperationalError, d)
      else (Inr (), d\<lparr>in_txn := True\<rparr>))"

definition conn_commit :: "unit stm" where
  "conn_commit d =
     (if closed d then (Inl AttributeError, d)
      else (Inr (), d\<lparr>committed := working d, in_txn := False\<rparr>))"

datatype outcome = Returned | Propagated py_error

text \<open>
  \<open>try: body except Exception as e: logger.error(...); self.conn.rollback()\<close>, followed by
  \<open>raise\<close> when \<open>reraise\<close> is set.  On a closed database \<open>self.conn\<close> is \<open>None\<close> and the
  handler's own \<open>self.conn.rollback()\<close> raises \<open>AttributeError\<close>.
\<close>

definition try_except_rollback :: "bool \<Rightarrow> unit stm \<Rightarrow> database \<Rightarrow> outcome \<times> database" where
  "try_except_rollback reraise body d =
     (case body d of
        (Inr u, d') \<Rightarrow> (Returned, d')
      | (Inl e, d') \<Rightarrow>
          (let d1 = d'\<lparr>logged := logged d' @ [e]\<rparr>
           in if closed d1 then (Propagated AttributeError, d1)
              else (if reraise then Propagated e else Returned,
                    d1\<lparr>working := committed d1, in_txn := False\<rparr>)))"

section \<open>db/database.py: the schema\<close>

text \<open>The tables of \<open>Database._create_tables\<close>, a column list each, in declaration order.\<close>

definition players_schema :: schema where
  "players_schema = \<lparr>table_name = ''players'',
     columns = [''player_key'', ''sport_code'', ''name'', ''team'', ''position'', ''status'',
       ''injury_note'', ''headshot_url'', ''stats'', ''last_updated''],
     unique_keys = [[''player_key'']], not_null = [''sport_code''], autoincrement = False\<rparr>"

definition teams_schema :: schema where
  "teams_schema = \<lparr>table_name = ''teams'',
     columns = [''team_key'', ''sport_code'', ''name'', ''logo_url'', ''stats'', ''last_updated''],
     unique_keys = [[''team_key'']], not_null = [''sport_code''], autoincrement = False\<rparr>"

definition leagues_schema :: schema where
  "leagues_schema = \<lparr>table_name = ''leagues'',
     columns = [''league_key'', ''sport_code'', ''name'', ''season'', ''settings'', ''standings'',
       ''last_updated''],
     unique_keys = [[''league_key'']], not_null = [''sport_code''], autoincrement = False\<rparr>"

definition games_schema :: schema where
  "games_schema = \<lparr>table_name = ''games'',
     columns = [''game_key'', ''game_id'', ''sport_code'', ''name'', ''season'', ''game_code'',
       ''game_type'', ''url'', ''is_registration_over'', ''is_game_over'', ''is_offseason'',
       ''editorial_season'', ''picks_status'', ''scenario_generator'', ''contest_group_id'',
       ''alternate_start_deadline'', ''last_updated''],
     unique_keys = [[''game_key'']], not_null = [''sport_code''], autoincrement = False\<rparr>"

definition league_standings_schema :: schema where
  "league_standings_schema = \<lparr>table_name = ''league_standings'',
     columns = [''league_key'', ''team_key'', ''team_name'', ''rank'', ''playoff_seed'', ''wins'',
       ''losses'', ''ties'', ''percentage'', ''points_for'', ''points_against'', ''streak_type'',
       ''streak_value'', ''season'', ''sport_code'', ''updated_at''],
     unique_keys = [], not_null = [], autoincrement = True\<rparr>"

definition league_settings_schema :: schema where
  "league_settings_schema = \<lparr>table_name = ''league_settings'',
     columns = [''league_key'', ''settings_json'', ''updated_at''],
     unique_keys = [[''league_key'']], not_null = [], autoincrement = False\<rparr>"

definition league_scoreboard_schema :: schema where
  "league_scoreboard_schema = \<lparr>table_name = ''league_scoreboard'',
     columns = [''league_key'', ''week'', ''scoreboard_json'', ''updated_at''],
     unique_keys = [], not_null = [], autoincrement = True\<rparr>"

definition league_rosters_schema :: schema where
  "league_rosters_schema = \<lparr>table_name = ''league_rosters'',
     columns = [''league_key'', ''team_key'', ''player_key'', ''selected_position'',
       ''is_starting'', ''week'', ''updated_at''],
     unique_keys = [], not_null = [], autoincrement = True\<rparr>"

definition league_points_schema :: schema where
  "league_points_schema = \<lparr>table_name = ''league_points'',
     columns = [''league_key'', ''team_key'', ''week'', ''points'', ''updated_at''],
     unique_keys = [], not_null = [], autoincrement = True\<rparr>"

definition league_games_columns :: "string list" where
  "league_games_columns = [''league_key'', ''week'', ''home_team_key'', ''away_team_key'',
     ''home_team_points'', ''away_team_points'', ''home_team_projected_points'',
     ''away_team_projected_points'', ''status'', ''game_start_time'', ''is_playoffs'',
     ''is_consolation'', ''is_tied'', ''winner_team_key'', ''matchup_recap_title'',
     ''home_team_manager'', ''away_team_manager'', ''updated_at'']"

definition league_games_schema :: schema where
  "league_games_schema = \<lparr>table_name = ''league_games'', columns = league_games_columns,
     unique_keys = [], not_null = [], autoincrement = True\<rparr>"

definition league_schedules_schema :: schema where
  "league_schedules_schema = \<lparr>table_name = ''league_schedules'',
     columns = [''league_key'', ''week'', ''team_key'', ''opponent_team_key'', ''is_home'',
       ''week_start'', ''week_end'', ''is_playoffs'', ''is_consolation'', ''is_tied'', ''status'',
       ''points'', ''projected_points'', ''is_winner'', ''manager_name'',
       ''opponent_manager_name'', ''matchup_recap_title'', ''division_id'',
       ''opponent_division_id'', ''clinched_playoffs'', ''opponent_clinched_playoffs'',
       ''updated_at''],
     unique_keys = [], not_null = [], autoincrement = True\<rparr>"

definition league_draft_results_schema :: schema where
  "league_draft_results_schema = \<lparr>table_name = ''league_draft_results'',
     columns = [''league_key'', ''season'', ''round'', ''pick'', ''team_key'', ''player_key'',
       ''updated_at''],
     unique_keys = [], not_null = [], autoincrement = True\<rparr>"

definition team_managers_schema :: schema where
  "team_managers_schema = \<lparr>table_name = ''team_managers'',
     columns = [''team_key'', ''manager_id'', ''nickname'', ''guid'', ''last_updated''],
     unique_keys = [], not_null = [''team_key''], autoincrement = True\<rparr>"

definition team_stats_schema :: schema where
  "team_stats_schema = \<lparr>table_name = ''team_stats'',
     columns = [''team_key'', ''stat_key'', ''stat_value'', ''last_updated''],
     unique_keys = [], not_null = [''team_key'', ''stat_key''], autoincrement = True\<rparr>"

definition sport_codes_schema :: schema where
  "sport_codes_schema = \<lparr>table_name = ''sport_codes'',
     columns = [''game_code'', ''sport'', ''season'', ''season_type'', ''last_updated''],
     unique_keys = [[''game_code'']], not_null = [''sport'', ''season'', ''season_type''],
     autoincrement = False\<rparr>"

definition player_stats_schema :: schema where
  "player_stats_schema = \<lparr>table_name = ''player_stats'',
     columns = [''player_key'', ''league_key'', ''week'', ''fantasy_points'', ''projected_points'',
       ''start_percentage'', ''roster_percentage'', ''bye_week'', ''passing_yards'',
       ''passing_touchdowns'', ''passing_interceptions'', ''passing_attempts'',
       ''rushing_yards'', ''rushing_touchdowns'', ''receptions'', ''receiving_yards'',
       ''receiving_touchdowns'', ''targets'', ''misc_touchdowns'', ''two_point_conversions'',
       ''fumbles_lost'', ''final_status'', ''opponent'', ''game_status'', ''updated_at''],
     unique_keys = [], not_null = [''player_key'', ''league_key''], autoincrement = True\<rparr>"

section \<open>db/database.py: the save methods\<close>

text \<open>
  The surroundings of a call: \<open>json.dumps\<close> and the value of \<open>CURRENT_TIMESTAMP\<close>.
\<close>

record env =
  dumps :: "json \<Rightarrow> string"
  now :: string

text \<open>A Python dict argument, in insertion order (keys distinct).\<close>

type_synonym pydict = "(string \<times> json) list"

text \<open>
  The values of an \<open>INSERT\<close>: \<open>data['k']\<close> (\<open>KeyError\<close> when absent),
  \<open>data.get('k', default)\<close>, \<open>json.dumps(data.get('k', {}))\<close>, a named placeholder \<open>:k\<close>
  filled from the dict passed to \<open>execute\<close> (\<open>ProgrammingError\<close> when absent), and
  \<open>CURRENT_TIMESTAMP\<close>.
\<close>

datatype param = Req string | Opt string json | Dumps string | Named string | Current_timestamp

fun eval_param :: "env \<Rightarrow> pydict \<Rightarrow> param \<Rightarrow> py_error + json" where
  "eval_param ev data (Req k) = (case map_of data k of None \<Rightarrow> Inl KeyError | Some v \<Rightarrow> Inr v)"
| "eval_param ev data (Opt k d) = Inr (case map_of data k of None \<Rightarrow> d | Some v \<Rightarrow> v)"
| "eval_param ev data (Dumps k) =
     Inr (JStr (dumps ev (case map_of data k of None \<Rightarrow> JDict [] | Some v \<Rightarrow> v)))"
| "eval_param ev data (Named k) =
     (case map_of data k of None \<Rightarrow> Inl ProgrammingError | Some v \<Rightarrow> Inr v)"
| "eval_param ev data Current_timestamp = Inr (JStr (now ev))"

text \<open>\<open>self.cursor.execute('INSERT [OR REPLACE] INTO t (cols) VALUES (...)', vals)\<close>.\<close>

definition insert_values :: "on_conflict \<Rightarrow> schema \<Rightarrow> string list \<Rightarrow> json list \<Rightarrow> unit stm" where
  "insert_values oc sch cols vals =
     cursor_execute (\<lambda>w. ebind (prepare_insert sch cols) (\<lambda>u.
       ebind (emap bind vals) (\<lambda>bound. sql_insert oc sch cols bound w)))"

definition insert_stmt ::
  "env \<Rightarrow> on_conflict \<Rightarrow> schema \<Rightarrow> string list \<Rightarrow> param list \<Rightarrow> pydict \<Rightarrow> unit stm" where
  "insert_stmt ev oc sch cols ps data =
     sbind (pure_e (emap (eval_param ev data) ps)) (insert_values oc sch cols)"

text \<open>The shape most save methods share: one \<open>INSERT OR REPLACE\<close>, then \<open>commit\<close>, inside
  \<open>try\<close>/\<open>except\<close> with a rollback.\<close>

definition insert_or_replace_method ::
  "env \<Rightarrow> schema \<Rightarrow> string list \<Rightarrow> param list \<Rightarrow> pydict \<Rightarrow> database \<Rightarrow> outcome \<times> database" where
  "insert_or_replace_method ev sch cols ps data =
     try_except_rollback False (sbind (insert_stmt ev Replace sch cols ps data) (\<lambda>u. conn_commit))"

definition save_player :: "env \<Rightarrow> pydict \<Rightarrow> database \<Rightarrow> outcome \<times> database" where
  "save_player ev player_data =
     insert_or_replace_method ev players_schema (columns players_schema)
       [Req ''player_key'', Req ''sport_code'', Opt ''name'' JNull, Opt ''team'' JNull,
        Opt ''position'' JNull, Opt ''status'' JNull, Opt ''injury_note'' JNull,
        Opt ''headshot_url'' JNull, Dumps ''stats'', Current_timestamp] player_data"

definition save_league :: "env \<Rightarrow> pydict \<Rightarrow> database \<Rightarrow> outcome \<times> database" where
  "save_league ev league_data =
     insert_or_replace_method ev leagues_schema (columns leagues_schema)
       [Req ''league_key'', Req ''sport_code'', Opt ''name'' JNull, Opt ''season'' JNull,
        Dumps ''settings'', Dumps ''standings'', Current_timestamp] league_data"

definition save_game :: "env \<Rightarrow> pydict \<Rightarrow> database \<Rightarrow> outcome \<times> database" where
  "save_game ev game_data =
     insert_or_replace_method ev games_schema (columns games_schema)
       [Req ''game_key'', Opt ''game_id'' JNull, Req ''sport_code'', Opt ''name'' JNull,
        Opt ''season'' JNull, Opt ''game_code'' JNull, Opt ''game_type'' JNull, Opt ''url'' JNull,
        Opt ''is_registration_over'' JNull, Opt ''is_game_over'' JNull,
        Opt ''is_offseason'' JNull, Opt ''editorial_season'' JNull, Opt ''picks_status'' JNull,
        Opt ''scenario_generator'' JNull, Opt ''contest_group_id'' JNull,
        Opt ''alternate_start_deadline'' JNull, Current_timestamp] game_data"

definition save_league_standings :: "env \<Rightarrow> pydict \<Rightarrow> database \<Rightarrow> outcome \<times> database" where
  "save_league_standings ev standings_data =
     insert_or_replace_method ev league_standings_schema (columns league_standings_schema)
       [Req ''league_key'', Req ''team_key'', Req ''team_name'', Opt ''rank'' JNull,
        Opt ''playoff_seed'' JNull, Opt ''wins'' JNull, Opt ''losses'' JNull, Opt ''ties'' JNull,
        Opt ''percentage'' JNull, Opt ''points_for'' JNull, Opt ''points_against'' JNull,
        Opt ''streak_type'' JNull, Opt ''streak_value'' JNull, Opt ''season'' JNull,
        Opt ''sport_code'' JNull, Current_timestamp] standings_data"

definition save_league_settings :: "env \<Rightarrow> pydict \<Rightarrow> database \<Rightarrow> outcome \<times> database" where
  "save_league_settings ev settings_data =
     insert_or_replace_method ev league_settings_schema (columns league_settings_schema)
       [Req ''league_key'', Dumps ''settings'', Current_timestamp] settings_data"

definition save_league_scoreboard :: "env \<Rightarrow> pydict \<Rightarrow> database \<Rightarrow> outcome \<times> database" where
  "save_league_scoreboard ev scoreboard_data =
     insert_or_replace_method ev league_scoreboard_schema (columns league_scoreboard_schema)
       [Req ''league_key'', Opt ''week'' JNull, Dumps ''scoreboard'', Current_timestamp]
       scoreboard_data"

definition save_league_roster :: "env \<Rightarrow> pydict \<Rightarrow> database \<Rightarrow> outcome \<times> database" where
  "save_league_roster ev roster_data =
     insert_or_replace_method ev league_rosters_schema (columns league_rosters_schema)
       [Req ''league_key'', Req ''team_key'', Req ''player_key'', Opt ''selected_position'' JNull,
        Opt ''is_starting'' (JInt 0), Opt ''week'' JNull, Current_timestamp] roster_data"

definition save_league_points :: "env \<Rightarrow> pydict \<Rightarrow> database \<Rightarrow> outcome \<times> database" where
  "save_league_points ev points_data =
     insert_or_replace_method ev league_points_schema (columns league_points_schema)
       [Req ''league_key'', Req ''team_key'', Req ''week'', Req ''points'', Current_timestamp]
       points_data"

text \<open>\<open>save_league_schedule\<close> takes a cursor of its own first (\<open>self.conn.cursor()\<close>).\<close>

definition conn_cursor :: "unit stm" where
  "conn_cursor d = (if closed d then (Inl AttributeError, d) else (Inr (), d))"

definition save_league_schedule :: "env \<Rightarrow> pydict \<Rightarrow> database \<Rightarrow> outcome \<times> database" where
  "save_league_schedule ev schedule_data =
     try_except_rollback False
       (sbind conn_cursor (\<lambda>u.
        sbind (insert_stmt ev Replace league_schedules_schema (columns league_schedules_schema)
          [Named ''league_key'', Named ''week'', Named ''team_key'',
           Named ''opponent_team_key'', Named ''is_home'', Named ''week_start'',
           Named ''week_end'', Named ''is_playoffs'', Named ''is_consolation'',
           Named ''is_tied'', Named ''status'', Named ''points'', Named ''projected_points'',
           Named ''is_winner'', Named ''manager_name'', Named ''opponent_manager_name'',
           Named ''matchup_recap_title'', Named ''division_id'',
           Named ''opponent_division_id'', Named ''clinched_playoffs'',
           Named ''opponent_clinched_playoffs'',
           Current_timestamp] schedule_data) (\<lambda>u. conn_commit)))"

definition save_player_stats :: "env \<Rightarrow> pydict \<Rightarrow> database \<Rightarrow> outcome \<times> database" where
  "save_player_stats ev stats_data =
     insert_or_replace_method ev player_stats_schema (columns player_stats_schema)
       [Named ''player_key'', Named ''league_key'', Named ''week'', Named ''fantasy_points'',
        Named ''projected_points'', Named ''start_percentage'', Named ''roster_percentage'',
        Named ''bye_week'', Named ''passing_yards'', Named ''passing_touchdowns'',
        Named ''passing_interceptions'', Named ''passing_attempts'', Named ''rushing_yards'',
        Named ''rushing_touchdowns'', Named ''receptions'', Named ''receiving_yards'',
        Named ''receiving_touchdowns'', Named ''targets'', Named ''misc_touchdowns'',
        Named ''two_point_conversions'', Named ''fumbles_lost'', Named ''final_status'',
        Named ''opponent'', Named ''game_status'',
        Current_timestamp] stats_data"

text \<open>\<open>save_sport_code\<close> names the columns \<open>start_date\<close> and \<open>end_date\<close>, which the
  \<open>sport_codes\<close> table of \<open>_create_tables\<close> does not have.\<close>

definition save_sport_code :: "env \<Rightarrow> pydict \<Rightarrow> database \<Rightarrow> outcome \<times> database" where
  "save_sport_code ev code_data =
     insert_or_replace_method ev sport_codes_schema
       [''game_code'', ''sport'', ''season'', ''season_type'', ''start_date'', ''end_date'']
       [Req ''game_code'', Req ''sport'', Req ''season'', Req ''season_type'',
        Opt ''start_date'' JNull, Opt ''end_date'' JNull] code_data"

text \<open>The \<open>for draft_result in draft_results_data\<close> loop, then one \<open>commit\<close>.\<close>

fun draft_results_loop :: "env \<Rightarrow> pydict list \<Rightarrow> unit stm" where
  "draft_results_loop ev [] = pure_e (Inr ())"
| "draft_results_loop ev (draft_result # rest) =
     sbind (insert_stmt ev Replace league_draft_results_schema
              (columns league_draft_results_schema)
              [Req ''league_key'', Req ''season'', Req ''round'', Req ''pick'', Req ''team_key'',
               Req ''player_key'', Current_timestamp] draft_result)
       (\<lambda>u. draft_results_loop ev rest)"

definition save_league_draft_results ::
  "env \<Rightarrow> pydict list \<Rightarrow> database \<Rightarrow> outcome \<times> database" where
  "save_league_draft_results ev draft_results_data =
     try_except_rollback False
       (sbind (draft_results_loop ev draft_results_data) (\<lambda>u. conn_commit))"

text \<open>
  \<open>save_team\<close>: an explicit \<open>BEGIN TRANSACTION\<close>, the team row, the manager row when
  \<open>team_data['stats']\<close> has a \<open>'manager'\<close>, one \<open>team_stats\<close> row for every other
  item of \<open>team_data['stats']\<close>, and \<open>commit\<close>.  Its handler ends with \<open>raise\<close>.
\<close>

fun py_items :: "json \<Rightarrow> py_error + (string \<times> json) list" where
  "py_items (JDict kvs) = Inr kvs"
| "py_items _ = Inl AttributeError"

text \<open>\<open>str(stat_value)\<close>, after a dict or list has been replaced by its \<open>json.dumps\<close>.\<close>

fun stat_text :: "env \<Rightarrow> json \<Rightarrow> string" where
  "stat_text ev (JDict kvs) = dumps ev (JDict kvs)"
| "stat_text ev (JList xs) = dumps ev (JList xs)"
| "stat_text ev (JStr s) = s"
| "stat_text ev (JInt n) = py_str n"
| "stat_text ev (JBool b) = (if b then ''True'' else ''False'')"
| "stat_text ev JNull = ''None''"

definition save_team_manager :: "env \<Rightarrow> pydict \<Rightarrow> unit stm" where
  "save_team_manager ev team_data =
     (case map_of team_data ''stats'' of
        None \<Rightarrow> pure_e (Inr ())
      | Some stats \<Rightarrow>
          sbind (pure_e (py_contains ''manager'' stats)) (\<lambda>has_manager.
            if \<not> has_manager then pure_e (Inr ())
            else sbind (pure_e (py_getitem_str stats ''manager'')) (\<lambda>manager.
              sbind (pure_e
                (ebind (eval_param ev team_data (Req ''team_key'')) (\<lambda>team_key.
                 ebind (py_get manager ''manager_id'' JNull) (\<lambda>manager_id.
                 ebind (py_get manager ''nickname'' JNull) (\<lambda>nickname.
                 ebind (py_get manager ''guid'' JNull) (\<lambda>guid.
                   Inr [team_key, manager_id, nickname, guid, JStr (now ev)]))))))
                (insert_values Replace team_managers_schema (columns team_managers_schema)))))"

fun team_stats_loop :: "env \<Rightarrow> pydict \<Rightarrow> (string \<times> json) list \<Rightarrow> unit stm" where
  "team_stats_loop ev team_data [] = pure_e (Inr ())"
| "team_stats_loop ev team_data ((stat_key, stat_value) # rest) =
     (if stat_key \<noteq> ''manager''
      then sbind
             (sbind (pure_e (eval_param ev team_data (Req ''team_key''))) (\<lambda>team_key.
                insert_values Replace team_stats_schema (columns team_stats_schema)
                  [team_key, JStr stat_key, JStr (stat_text ev stat_value), JStr (now ev)]))
             (\<lambda>u. team_stats_loop ev team_data rest)
      else team_stats_loop ev team_data rest)"

definition save_team_stats :: "env \<Rightarrow> pydict \<Rightarrow> unit stm" where
  "save_team_stats ev team_data =
     (case map_of team_data ''stats'' of
        None \<Rightarrow> pure_e (Inr ())
      | Some stats \<Rightarrow> sbind (pure_e (py_items stats)) (team_stats_loop ev team_data))"

definition save_team :: "env \<Rightarrow> pydict \<Rightarrow> database \<Rightarrow> outcome \<times> database" where
  "save_team ev team_data =
     try_except_rollback True
       (sbind conn_begin (\<lambda>u.
        sbind (insert_stmt ev Replace teams_schema (columns teams_schema)
                 [Req ''team_key'', Req ''sport_code'', Opt ''name'' JNull, Opt ''logo_url'' JNull,
                  Dumps ''stats'', Current_timestamp] team_data) (\<lambda>u.
        sbind (save_team_manager ev team_data) (\<lambda>u.
        sbind (save_team_stats ev team_data) (\<lambda>u. conn_commit)))))"

text \<open>
  \<open>save_league_game\<close>: a \<open>SELECT id\<close> for a row with the same four key columns, then an
  \<open>UPDATE\<close> of the other columns of the matching rows when \<open>fetchone()\<close> returned a row,
  and a plain \<open>INSERT\<close> otherwise.
\<close>

definition league_game_key_columns :: "string list" where
  "league_game_key_columns = [''league_key'', ''week'', ''home_team_key'', ''away_team_key'']"

definition league_game_data_columns :: "string list" where
  "league_game_data_columns = [''home_team_points'', ''away_team_points'',
     ''home_team_projected_points'', ''away_team_projected_points'', ''status'',
     ''game_start_time'', ''is_playoffs'', ''is_consolation'', ''is_tied'', ''winner_team_key'',
     ''matchup_recap_title'', ''home_team_manager'', ''away_team_manager'']"

definition league_game_key_params :: "param list" where
  "league_game_key_params = [Req ''league_key'', Opt ''week'' JNull, Opt ''home_team_key'' JNull,
     Opt ''away_team_key'' JNull]"

definition league_game_data_params :: "param list" where
  "league_game_data_params = map (\<lambda>c. Opt c JNull) league_game_data_columns"

definition select_league_game :: "env \<Rightarrow> pydict \<Rightarrow> (nat option) stm" where
  "select_league_game ev game_data =
     sbind (pure_e (emap (eval_param ev game_data) league_game_key_params)) (\<lambda>keys.
       cursor_query (\<lambda>w. ebind (emap bind keys) (\<lambda>ks.
         Inr (sql_select_id league_games_schema (zip league_game_key_columns ks) w))))"

definition update_league_game :: "env \<Rightarrow> pydict \<Rightarrow> unit stm" where
  "update_league_game ev game_data =
     sbind (pure_e (emap (eval_param ev game_data)
              (league_game_data_params @ league_game_key_params))) (\<lambda>vals.
       cursor_execute (\<lambda>w. ebind (emap bind vals) (\<lambda>bound.
         Inr (sql_update league_games_schema
                (zip (league_game_data_columns @ [''updated_at''])
                     (take 13 bound @ [SText (now ev)]))
                (zip league_game_key_columns (drop 13 bound)) w))))"

definition insert_league_game :: "env \<Rightarrow> pydict \<Rightarrow> unit stm" where
  "insert_league_game ev game_data =
     insert_stmt ev Abort league_games_schema league_games_columns
       (league_game_key_params @ league_game_data_params @ [Current_timestamp]) game_data"

definition save_league_game :: "env \<Rightarrow> pydict \<Rightarrow> database \<Rightarrow> outcome \<times> database" where
  "save_league_game ev game_data =
     try_except_rollback False
       (sbind (select_league_game ev game_data) (\<lambda>existing_game.
        sbind (case existing_game of
                 Some i \<Rightarrow> update_league_game ev game_data
               | None \<Rightarrow> insert_league_game ev game_data) (\<lambda>u. conn_commit)))"

text \<open>
  The uniform upsert of the specification, for comparison with \<open>save_league_game\<close>: a
  single \<open>INSERT OR REPLACE\<close> into a \<open>league_games\<close> table keyed on
  \<open>(league_key, week, home_team_key, away_team_key)\<close>.
\<close>

definition league_games_keyed_schema :: schema where
  "league_games_keyed_schema = league_games_schema\<lparr>unique_keys := [league_game_key_columns]\<rparr>"

definition upsert_league_game :: "env \<Rightarrow> pydict \<Rightarrow> database \<Rightarrow> outcome \<times> database" where
  "upsert_league_game ev game_data =
     insert_or_replace_method ev league_games_keyed_schema league_games_columns
       (league_game_key_params @ league_game_data_params @ [Current_timestamp]) game_data"

text \<open>A call of one of the fourteen \<open>save_*\<close> methods.\<close>

datatype save_call =
    Save_player pydict | Save_team pydict | Save_league pydict | Save_game pydict
  | Save_league_standings pydict | Save_league_settings pydict | Save_league_scoreboard pydict
  | Save_league_roster pydict | Save_league_points pydict | Save_league_game pydict
  | Save_league_schedule pydict | Save_league_draft_results "pydict list"
  | Save_sport_code pydict | Save_player_stats pydict

fun call_save :: "env \<Rightarrow> save_call \<Rightarrow> database \<Rightarrow> outcome \<times> database" where
  "call_save ev (Save_player x) = save_player ev x"
| "call_save ev (Save_team x) = save_team ev x"
| "call_save ev (Save_league x) = save_league ev x"
| "call_save ev (Save_game x) = save_game ev x"
| "call_save ev (Save_league_standings x) = save_league_standings ev x"
| "call_save ev (Save_league_settings x) = save_league_settings ev x"
| "call_save ev (Save_league_scoreboard x) = save_league_scoreboard ev x"
| "call_save ev (Save_league_roster x) = save_league_roster ev x"
| "call_save ev (Save_league_points x) = save_league_points ev x"
| "call_save ev (Save_league_game x) = save_league_game ev x"
| "call_save ev (Save_league_schedule x) = save_league_schedule ev x"
| "call_save ev (Save_league_draft_results xs) = save_league_draft_results ev xs"
| "call_save ev (Save_sport_code x) = save_sport_code ev x"
| "call_save ev (Save_player_stats x) = save_player_stats ev x"


section \<open>yahoo\_api.py: get\_players\<close>

text \<open>The dict \<open>get_players\<close> returns.\<close>

record players_result =
  players :: "pydict list"
  total_available :: int
  new_players_found :: int
  has_more :: bool



definition dict_get :: "pydict \<Rightarrow> string \<Rightarrow> json \<Rightarrow> json" where
  "dict_get d k dflt = (case map_of d k of None \<Rightarrow> dflt | Some v \<Rightarrow> v)"




text \<open>
  The final test: \<open>player_info.get('player_key')\<close> is truthy and either
  \<open>existing_player_keys\<close> is \<open>None\<close> or empty, or the key is not in it
  (\<open>existing_player_keys\<close> is a list of \<open>str\<close>; only a \<open>str\<close> key can equal one of them).
\<close>

fun key_in :: "json \<Rightarrow> string list \<Rightarrow> bool" where
  "key_in (JStr s) keys = (s \<in> set keys)"
| "key_in _ keys = False"







section \<open>yahoo\_api.py: get\_games\<close>

text \<open>
  The \<open>sport_codes\<close> argument: \<open>None\<close>, one code, or a list of codes.  A string is taken
  as the one-element list, and \<open>None\<close> or an empty list as all supported sports.
\<close>

datatype sport_arg = Sport_none | Sport_str string | Sport_list "string list"

definition supported_sports :: "string list" where
  "supported_sports = [''nfl'', ''mlb'', ''nba'', ''nhl'']"

fun sport_codes_of :: "sport_arg \<Rightarrow> string list" where
  "sport_codes_of (Sport_str s) = [s]"
| "sport_codes_of Sport_none = supported_sports"
| "sport_codes_of (Sport_list codes) = (if codes = [] then supported_sports else codes)"

text \<open>\<open>game_id.isdigit()\<close>, on ASCII text.\<close>

definition is_digit_str :: "string \<Rightarrow> bool" where
  "is_digit_str s = (s \<noteq> [] \<and> list_all (\<lambda>c. c \<in> set ''0123456789'') s)"

text \<open>\<open>not seasons or game_info.get('season') in map(str, seasons)\<close>.\<close>

definition season_wanted :: "int list option \<Rightarrow> pydict \<Rightarrow> bool" where
  "season_wanted seasons game_info =
     (case seasons of
        None \<Rightarrow> True
      | Some ss \<Rightarrow> ss = [] \<or> key_in (dict_get game_info ''season'' JNull) (map py_str ss))"

text \<open>The nested tests on one item of \<open>games.items()\<close>: the \<open>game_info\<close> to append, if
  any.\<close>

definition game_of_entry :: "int list option \<Rightarrow> string \<Rightarrow> json \<Rightarrow> pydict option" where
  "game_of_entry seasons game_id game_data =
     (if is_digit_str game_id then
        (case game_data of
           JDict gd \<Rightarrow>
             (case map_of gd ''game'' of
                Some (JList (JDict game_info # others)) \<Rightarrow>
                  (if season_wanted seasons game_info then Some game_info else None)
              | _ \<Rightarrow> None)
         | _ \<Rightarrow> None)
      else None)"

definition games_of_sport ::
  "(string \<Rightarrow> py_error + json) \<Rightarrow> int list option \<Rightarrow> string \<Rightarrow> py_error + pydict list" where
  "games_of_sport make_request seasons sport =
     ebind (make_request (''/games;out=metadata;game_codes='' @ sport)) (\<lambda>response.
       if \<not> truthy response then Inr []
       else ebind (py_contains ''fantasy_content'' response) (\<lambda>has_content.
         if \<not> has_content then Inr []
         else ebind (py_getitem_str response ''fantasy_content'') (\<lambda>content.
           ebind (py_get content ''games'' (JDict [])) (\<lambda>games.
             case games of
               JDict items \<Rightarrow>
                 Inr (List.map_filter (\<lambda>kv. game_of_entry seasons (fst kv) (snd kv)) items)
             | _ \<Rightarrow> Inr []))))"

fun sports_loop ::
  "(string \<Rightarrow> py_error + json) \<Rightarrow> int list option \<Rightarrow> string list \<Rightarrow> pydict list \<Rightarrow>
   py_error + pydict list" where
  "sports_loop make_request seasons [] games_list = Inr games_list"
| "sports_loop make_request seasons (sport # rest) games_list =
     (case games_of_sport make_request seasons sport of
        Inl e \<Rightarrow> Inl e
      | Inr found \<Rightarrow> sports_loop make_request seasons rest (games_list @ found))"

text \<open>
  \<open>sorted(games_list, key=lambda x: (x.get('code'), -int(x.get('season', 0))))\<close>.  The keys
  are computed first, and \<open>int\<close> can raise.  Two key tuples are compared through their
  first components unless these are equal; \<open>None\<close>, numbers and strings compare within
  their own kind only, so the sort raises \<open>TypeError\<close> unless the codes are of one kind.
  (A code that is a JSON array or object is taken as comparable to nothing.)  Otherwise the
  result is the stable sort by the key: \<open>code_rank\<close> embeds the codes of each kind, in
  their Python order, into one linear order.
\<close>

definition game_code :: "pydict \<Rightarrow> json" where
  "game_code x = dict_get x ''code'' JNull"

definition sort_key_of :: "(string \<Rightarrow> int option) \<Rightarrow> pydict \<Rightarrow> py_error + json \<times> int" where
  "sort_key_of s2i x =
     ebind (py_int s2i (dict_get x ''season'' (JInt 0))) (\<lambda>season. Inr (game_code x, - season))"

fun code_class :: "json \<Rightarrow> nat option" where
  "code_class JNull = Some 0"
| "code_class (JBool b) = Some 1"
| "code_class (JInt n) = Some 1"
| "code_class (JStr s) = Some 2"
| "code_class (JList xs) = None"
| "code_class (JDict kvs) = None"

definition comparable :: "json \<Rightarrow> json \<Rightarrow> bool" where
  "comparable a b = (code_class a \<noteq> None \<and> code_class a = code_class b)"

fun all_comparable :: "json list \<Rightarrow> bool" where
  "all_comparable [] = True"
| "all_comparable (a # rest) = (list_all (comparable a) rest \<and> all_comparable rest)"

fun code_rank :: "json \<Rightarrow> nat \<times> int \<times> string" where
  "code_rank JNull = (0, 0, [])"
| "code_rank (JBool b) = (1, if b then 1 else 0, [])"
| "code_rank (JInt n) = (1, n, [])"
| "code_rank (JStr s) = (2, 0, s)"
| "code_rank (JList xs) = (3, 0, [])"
| "code_rank (JDict kvs) = (3, 0, [])"

definition game_season :: "(string \<Rightarrow> int option) \<Rightarrow> pydict \<Rightarrow> int" where
  "game_season s2i x =
     (case py_int s2i (dict_get x ''season'' (JInt 0)) of Inr season \<Rightarrow> season | Inl e \<Rightarrow> 0)"

definition rank_key :: "(string \<Rightarrow> int option) \<Rightarrow> pydict \<Rightarrow> (nat \<times> int \<times> string) \<times> int" where
  "rank_key s2i x = (code_rank (game_code x), - game_season s2i x)"

definition py_sorted_games :: "(string \<Rightarrow> int option) \<Rightarrow> pydict list \<Rightarrow> py_error + pydict list" where
  "py_sorted_games s2i games_list =
     ebind (emap (sort_key_of s2i) games_list) (\<lambda>keys.
       if all_comparable (map fst keys) then Inr (sort_key (rank_key s2i) games_list)
       else Inl TypeError)"

definition get_games ::
  "(string \<Rightarrow> py_error + json) \<Rightarrow> (string \<Rightarrow> int option) \<Rightarrow> sport_arg \<Rightarrow> int list option \<Rightarrow>
   py_error + pydict list" where
  "get_games make_request s2i sport_codes seasons =
     ebind (sports_loop make_request seasons (sport_codes_of sport_codes) [])
       (py_sorted_games s2i)"

section \<open>Notions used in the proofs, and sample inputs\<close>



definition ev0 :: env where
  "ev0 = \<lparr>dumps = (\<lambda>j. ''{}''), now = ''2024-01-01 00:00:00''\<rparr>"

definition pick1 :: pydict where
  "pick1 = [(''league_key'', JStr ''449.l.1''), (''season'', JStr ''2024''), (''round'', JInt 1),
     (''pick'', JInt 1), (''team_key'', JStr ''449.l.1.t.1''), (''player_key'', JStr ''449.p.1'')]"

definition pick2_bad :: pydict where
  "pick2_bad = [(''league_key'', JStr ''449.l.1''), (''season'', JStr ''2024''), (''round'', JInt 1),
     (''pick'', JInt 2), (''team_key'', JStr ''449.l.1.t.2'')]"



definition roster1 :: pydict where
  "roster1 = [(''league_key'', JStr ''449.l.1''), (''team_key'', JStr ''449.l.1.t.1''),
     (''player_key'', JStr ''449.p.100''), (''selected_position'', JStr ''QB''),
     (''is_starting'', JInt 1), (''week'', JInt 1)]"

definition player1 :: pydict where
  "player1 = [(''player_key'', JStr ''449.p.100''), (''sport_code'', JStr ''nfl''),
     (''name'', JStr ''A. Player'')]"

text \<open>
  For the comparison of \<open>save_league_game\<close> with the upsert: the rows of a table without
  their rowids, as a multiset; a \<open>league_games\<close> table whose rows have all 18 columns and
  in which no two rows share the same (non-\<open>NULL\<close>) four key values.
\<close>

definition payloads :: "table \<Rightarrow> row multiset" where
  "payloads t = mset (map snd (rows t))"

fun distinct_keys :: "schema \<Rightarrow> (nat \<times> row) list \<Rightarrow> bool" where
  "distinct_keys sch [] = True"
| "distinct_keys sch (ir # rest) =
     (\<not> list_ex (\<lambda>jr. key_conflict sch (snd ir) (snd jr)) rest \<and> distinct_keys sch rest)"

definition game_rows_ok :: "(nat \<times> row) list \<Rightarrow> bool" where
  "game_rows_ok rs = (list_all (\<lambda>ir. length (snd ir) = 18) rs \<and>
     distinct_keys league_games_keyed_schema rs)"

text \<open>Sample \<open>league_games\<close> states: one stored game, and the same game stored twice (as
  plain \<open>INSERT\<close>s of another writer leave it); \<open>game1\<close> is that game with a new status.\<close>

definition game0 :: pydict where
  "game0 = [(''league_key'', JStr ''449.l.1''), (''week'', JInt 1),
     (''home_team_key'', JStr ''449.l.1.t.1''), (''away_team_key'', JStr ''449.l.1.t.2''),
     (''status'', JStr ''preevent'')]"

definition game1 :: pydict where
  "game1 = [(''league_key'', JStr ''449.l.1''), (''week'', JInt 1),
     (''home_team_key'', JStr ''449.l.1.t.1''), (''away_team_key'', JStr ''449.l.1.t.2''),
     (''status'', JStr ''postevent'')]"

definition game_row :: "string \<Rightarrow> row" where
  "game_row status = [SText ''449.l.1'', SInt 1, SText ''449.l.1.t.1'', SText ''449.l.1.t.2'',
     SNull, SNull, SNull, SNull, SText status, SNull, SNull, SNull, SNull, SNull, SNull, SNull,
     SNull, SText ''2024-01-01 00:00:00'']"

definition games_db :: "(nat \<times> row) list \<Rightarrow> nat \<Rightarrow> database" where
  "games_db rs n = new_database
     \<lparr>committed := (committed new_database)(''league_games'' := \<lparr>rows = rs, seq = n\<rparr>),
      working := (working new_database)(''league_games'' := \<lparr>rows = rs, seq = n\<rparr>)\<rparr>"

definition one_game :: database where
  "one_game = games_db [(1, game_row ''preevent'')] 1"

definition two_games :: database where
  "two_games = games_db [(1, game_row ''preevent''), (2, game_row ''preevent'')] 2"

section \<open>db/dashboard.py: the queries\<close>

text \<open>
  What a dashboard function hands to \<open>pd.read_sql_query\<close>: the SQL text and the bound
  parameters.  The texts are given with their whitespace (line breaks, indentation)
  reduced to single blanks; \<open>CHR 0x27\<close> is the single quote.  \<open>load_leagues\<close> formats the
  season into the text with an f-string.
\<close>

record sql_call =
  sql_text :: string
  sql_params :: "json list"

definition load_seasons :: sql_call where
  "load_seasons = \<lparr>sql_text = ''SELECT DISTINCT season FROM leagues ORDER BY season DESC'',
     sql_params = []\<rparr>"

definition load_leagues :: "string \<Rightarrow> sql_call" where
  "load_leagues season =
     \<lparr>sql_text = ''SELECT league_key, name FROM leagues WHERE season = '' @ [CHR 0x27] @ season
        @ [CHR 0x27],
      sql_params = []\<rparr>"

text \<open>\<open>load_table_data(query, params=None)\<close> hands the text it is given to the engine,
  with \<open>params\<close> when there are any.\<close>

definition load_table_data :: "string \<Rightarrow> json list option \<Rightarrow> sql_call" where
  "load_table_data query params =
     (case params of
        None \<Rightarrow> \<lparr>sql_text = query, sql_params = []\<rparr>
      | Some ps \<Rightarrow> \<lparr>sql_text = query, sql_params = ps\<rparr>)"

text \<open>
  The League Info tab builds its query with an f-string around \<open>selected_league\<close> and
  passes it to \<open>load_table_data\<close> without parameters.
\<close>

definition league_info_query :: "string \<Rightarrow> sql_call" where
  "league_info_query selected_league =
     load_table_data
       (''SELECT league_key, sport_code, name, season, settings, last_updated FROM leagues WHERE league_key = ''
          @ [CHR 0x27] @ selected_league @ [CHR 0x27]) None"

text \<open>\<open>display_player_stats\<close> passes a constant text and binds \<open>(league_key, week)\<close>.\<close>

definition player_stats_query :: string where
  \<open>player_stats_query = ''SELECT p.position as Pos, p.name as Player, p.team as Team, p.status as Status, p.headshot_url as HeadshotUrl, ps.bye_week as Bye, ROUND(ps.fantasy_points, 2) as "Fan Pts", ROUND(ps.projected_points, 2) as "Proj Pts", ps.start_percentage as "% Start", ps.roster_percentage as "% Ros", ps.passing_yards as "Pass Yds", ps.passing_touchdowns as "Pass TD", ps.passing_interceptions as Int, ps.passing_attempts as "Pass Att", ps.rushing_yards as "Rush Yds", ps.rushing_touchdowns as "Rush TD", ps.receptions as Rec, ps.receiving_yards as "Rec Yds", ps.receiving_touchdowns as "Rec TD", ps.targets as Tgt, ps.misc_touchdowns as "Misc TD", ps.two_point_conversions as "2PT", ps.fumbles_lost as Lost, ps.final_status as "Final", ps.opponent as Opp FROM players p JOIN player_stats ps ON p.player_key = ps.player_key WHERE ps.league_key = ? AND ps.week = ? ORDER BY ps.fantasy_points DESC''\<close>

definition display_player_stats :: "string \<Rightarrow> int \<Rightarrow> sql_call" where
  "display_player_stats league_key week =
     \<lparr>sql_text = player_stats_query, sql_params = [JStr league_key, JInt week]\<rparr>"








text \<open>An API with two NFL games and one MLB game, and nothing for the other sports.\<close>

definition game_entry :: "string \<Rightarrow> string \<Rightarrow> string \<Rightarrow> json" where
  "game_entry key code season =
     JDict [(''game'', JList [JDict [(''game_key'', JStr key), (''code'', JStr code),
                                     (''season'', JStr season)]])]"

definition games_api :: "string \<Rightarrow> py_error + json" where
  "games_api endpoint =
     (if endpoint = ''/games;out=metadata;game_codes=nfl''
      then Inr (JDict [(''fantasy_content'', JDict [(''games'', JDict [
             (''0'', game_entry ''423'' ''nfl'' ''2023''),
             (''1'', game_entry ''449'' ''nfl'' ''2024''),
             (''count'', JInt 2)])])])
      else if endpoint = ''/games;out=metadata;game_codes=mlb''
      then Inr (JDict [(''fantasy_content'', JDict [(''games'', JDict [
             (''0'', game_entry ''422'' ''mlb'' ''2023''),
             (''count'', JInt 1)])])])
      else Inr JNull)"

definition parse_year :: "string \<Rightarrow> int option" where
  "parse_year s = (if s = ''2023'' then Some 2023 else if s = ''2024'' then Some 2024 else None)"

definition game_info :: "string \<Rightarrow> string \<Rightarrow> string \<Rightarrow> pydict" where
  "game_info key code season =
     [(''game_key'', JStr key), (''code'', JStr code), (''season'', JStr season)]"


section \<open>yahoo\_api.py: make\_request\<close>

text \<open>What lies outside the program is a parameter: the answer of \<open>self.session.get\<close> to
  the \<open>n\<close>-th GET of the run (it raises or returns a response), the answer of
  \<open>requests.post\<close> to the token request, and whether \<open>.yahoo_tokens.json\<close> can be
  opened for writing and \<open>json.dump\<close> completes.  \<open>response.json()\<close> raises or returns
  the decoded body.\<close>

record http_response =
  status_code :: nat
  json_body :: "py_error + json"

type_synonym request = "string \<times> pydict option"

datatype write_outcome = Written | Open_fails | Dump_fails

record web =
  session_get :: "nat \<Rightarrow> request \<Rightarrow> py_error + http_response"
  token_post :: "json \<Rightarrow> py_error + http_response"
  file_write :: write_outcome
  update_pairs :: "pydict \<Rightarrow> json list \<Rightarrow> py_error option \<times> pydict"

text \<open>The state of the client: \<open>self.token\<close> (whatever \<open>json.load\<close> gave
  \<open>_load_token\<close>), the token file, the GET requests sent so far, the number of token
  requests, and the calls of \<open>logger.error\<close>.\<close>

datatype file_state = Unchanged | Holds json | Truncated

datatype log_entry = Error_saving_token | Error_refreshing py_error | Refresh_failed nat
  | Refresh_response | Request_error py_error

record client =
  token :: json
  token_file :: file_state
  get_calls :: "request list"
  token_posts :: nat
  error_log :: "log_entry list"



definition log_error :: "log_entry \<Rightarrow> client \<Rightarrow> client" where
  "log_error entry c = c\<lparr>error_log := error_log c @ [entry]\<rparr>"

text \<open>\<open>_save_token\<close>: every exception is logged and swallowed.  \<open>open(..., 'w')\<close>
  truncates the file before \<open>json.dump\<close> writes.\<close>

definition save_token :: "web \<Rightarrow> json \<Rightarrow> client \<Rightarrow> client" where
  "save_token w tok c =
     (case file_write w of
        Written \<Rightarrow> c\<lparr>token_file := Holds tok\<rparr>
      | Open_fails \<Rightarrow> log_error Error_saving_token c
      | Dump_fails \<Rightarrow> log_error Error_saving_token (c\<lparr>token_file := Truncated\<rparr>))"















section \<open>Properties of utils.py\<close>

lemma py_sub_val: "py_sub a b = Inr d \<Longrightarrow> num_val d = num_val a - num_val b"
  by (cases a; cases b) (auto simp: ebind_def to_float_def split: if_splits)

lemma py_sub_cases: "py_sub a b = Inl e \<Longrightarrow> e = OverflowError"
  by (cases a; cases b) (auto simp: ebind_def to_float_def split: if_splits)

lemma py_truediv_cases:
  "num_val b \<noteq> 0 \<Longrightarrow>
   py_truediv a b = Inl OverflowError \<or> py_truediv a b = Inr (PyFloat (num_val a / num_val b))"
  by (cases a; cases b) (auto simp: ebind_def to_float_def float_div_def)

text \<open>
  C9 (as amended).  \<open>calculate_trend\<close> never divides by zero: when \<open>previous == 0\<close> it
  returns 100 if \<open>current > 0\<close> and 0 otherwise; when \<open>previous\<close> is not zero it returns
  \<open>((current - previous) / previous) * 100\<close> or raises \<open>OverflowError\<close>.  It returns on all
  float arguments, and on \<open>int\<close> arguments whose quotient is within the float range.
\<close>

theorem calculate_trend_cases:
  "(num_val previous = 0 \<longrightarrow>
      calculate_trend current previous = Inr (PyInt (if num_val current > 0 then 100 else 0))) \<and>
   (num_val previous \<noteq> 0 \<longrightarrow>
      calculate_trend current previous = Inl OverflowError \<or>
      calculate_trend current previous
        = Inr (PyFloat (((num_val current - num_val previous) / num_val previous) * 100))) \<and>
   calculate_trend current previous \<noteq> Inl ZeroDivisionError \<and>
   (is_float current \<and> is_float previous \<longrightarrow> (\<exists>v. calculate_trend current previous = Inr v)) \<and>
   (\<forall>c p. current = PyInt c \<and> previous = PyInt p \<and> p \<noteq> 0 \<and>
      \<bar>real_of_int (c - p) / real_of_int p\<bar> < float_overflow \<longrightarrow>
      calculate_trend current previous
        = Inr (PyFloat ((real_of_int (c - p) / real_of_int p) * 100)))"
proof -
  have zero: "num_val previous = 0 \<longrightarrow>
      calculate_trend current previous = Inr (PyInt (if num_val current > 0 then 100 else 0))"
    by (simp add: calculate_trend_def)
  have nz: "calculate_trend current previous = Inl OverflowError \<or>
      calculate_trend current previous
        = Inr (PyFloat (((num_val current - num_val previous) / num_val previous) * 100))"
    if p: "num_val previous \<noteq> 0"
  proof (cases "py_sub current previous")
    case (Inl e)
    with py_sub_cases [OF Inl] p show ?thesis by (simp add: calculate_trend_def ebind_def)
  next
    case (Inr d)
    from py_truediv_cases [OF p, of d] py_sub_val [OF Inr] Inr p show ?thesis
      by (auto simp: calculate_trend_def ebind_def)
  qed
  have nozd: "calculate_trend current previous \<noteq> Inl ZeroDivisionError"
    using zero nz by (cases "num_val previous = 0") auto
  have fl: "is_float current \<and> is_float previous \<longrightarrow> (\<exists>v. calculate_trend current previous = Inr v)"
    by (cases current; cases previous) (auto simp: calculate_trend_def ebind_def float_div_def)
  have ints: "\<forall>c p. current = PyInt c \<and> previous = PyInt p \<and> p \<noteq> 0 \<and>
      \<bar>real_of_int (c - p) / real_of_int p\<bar> < float_overflow \<longrightarrow>
      calculate_trend current previous
        = Inr (PyFloat ((real_of_int (c - p) / real_of_int p) * 100))"
    by (auto simp: calculate_trend_def ebind_def)
  from zero nz nozd fl ints show ?thesis by blast
qed

theorem calculate_trend_cases_witness:
  "calculate_trend (PyInt 5) (PyInt 0) = Inr (PyInt 100) \<and>
   calculate_trend (PyInt (- 5)) (PyFloat 0) = Inr (PyInt 0) \<and>
   calculate_trend (PyInt 3) (PyInt 2) = Inr (PyFloat 50) \<and>
   (\<exists>v. calculate_trend (PyFloat 3) (PyFloat 2) = Inr v)"
proof -
  have b: "\<bar>real_of_int (3 - 2) / real_of_int 2\<bar> < float_overflow"
    by (simp add: float_overflow_def)
  from calculate_trend_cases [of "PyInt 0" "PyInt 5"] calculate_trend_cases [of "PyFloat 0" "PyInt (- 5)"]
    calculate_trend_cases [of "PyInt 2" "PyInt 3"] calculate_trend_cases [of "PyFloat 2" "PyFloat 3"] b
  show ?thesis by simp
qed

text \<open>
  C9 as stated fails: \<open>calculate_trend\<close> is not total on Python's integers.  For
  \<open>current = 10 ** 400\<close> and \<open>previous = 1\<close> the quotient is too large for a float and the
  division raises \<open>OverflowError\<close>.
\<close>

theorem calculate_trend_total_counterexample:
  "calculate_trend (PyInt (10 ^ 400)) (PyInt 1) = Inl OverflowError"
  by (simp add: calculate_trend_def ebind_def float_overflow_def)

section \<open>Properties of load\_players\_data.py\<close>

text \<open>
  From any counter value \<open>r \<le> max_retries\<close>, the loop issues \<open>j + 1\<close> further requests
  of the same endpoint and sleeps \<open>j\<close> times between them, for some \<open>j \<le> max_retries - r\<close>;
  the \<open>i\<close>-th of these sleeps is \<open>2 * 2 ^ (r + 1 + i)\<close> plus a random draw.
\<close>

lemma load_batch_loop_trace:
  "load_batch_loop api rnd s2i ep m r tr = (res, tr') \<Longrightarrow> int r \<le> m \<Longrightarrow>
   \<exists>j. int r + int j \<le> m \<and>
     requests tr' = requests tr @ replicate (Suc j) ep \<and>
     sleeps tr' = sleeps tr @ map (\<lambda>i. 2 * 2 ^ (Suc r + i) + rnd (length (sleeps tr) + i)) [0..<j]"
proof (induction api rnd s2i ep m r tr arbitrary: res tr' rule: load_batch_loop.induct)
  case (1 api rnd s2i ep m r tr)
  let ?tr1 = "tr\<lparr>requests := requests tr @ [ep]\<rparr>"
  let ?out = "attempt s2i (api (length (requests tr)) ep)"
  show ?case
  proof (cases "failed_attempt ?out \<and> int r < m")
    case False
    then have "tr' = ?tr1"
      using "1.prems" by (subst (asm) load_batch_loop.simps) (auto simp: Let_def split: attempt_outcome.splits)
    then show ?thesis using "1.prems"(2) by (intro exI[of _ 0]) simp
  next
    case True
    let ?tr2 = "wait_with_backoff rnd (Suc r) 2 ?tr1"
    from True have rec: "load_batch_loop api rnd s2i ep m (Suc r) ?tr2 = (res, tr')"
      using "1.prems" by (subst (asm) load_batch_loop.simps) (auto simp: Let_def split: attempt_outcome.splits)
    from True have le: "int (Suc r) \<le> m" by simp
    have "\<exists>j. int (Suc r) + int j \<le> m \<and>
       requests tr' = requests ?tr2 @ replicate (Suc j) ep \<and>
       sleeps tr' = sleeps ?tr2 @ map (\<lambda>i. 2 * 2 ^ (Suc (Suc r) + i) + rnd (length (sleeps ?tr2) + i)) [0..<j]"
    proof (cases ?out)
      case (Done x)
      with True show ?thesis by simp
    next
      case SoftFail
      show ?thesis
        by (rule "1.IH"(1)[OF _ refl SoftFail _ rec le]) (use "1.prems"(2) True in auto)
    next
      case (Raised e)
      show ?thesis
        by (rule "1.IH"(2)[OF _ refl Raised _ rec le]) (use "1.prems"(2) True in auto)
    qed
    then obtain j where j: "int (Suc r) + int j \<le> m"
      "requests tr' = requests ?tr2 @ replicate (Suc j) ep"
      "sleeps tr' = sleeps ?tr2 @ map (\<lambda>i. 2 * 2 ^ (Suc (Suc r) + i) + rnd (length (sleeps ?tr2) + i)) [0..<j]"
      by blast
    have "sleeps tr' = sleeps tr @ map (\<lambda>i. 2 * 2 ^ (Suc r + i) + rnd (length (sleeps tr) + i)) [0..<Suc j]"
      unfolding j(3) by (simp add: wait_with_backoff_def Let_def upt_rec[of 0 "Suc j"] map_Suc_upt[symmetric] del: upt_Suc)
    moreover have "requests tr' = requests tr @ replicate (Suc (Suc j)) ep"
      unfolding j(2) by (simp add: wait_with_backoff_def Let_def replicate_app_Cons_same)
    ultimately show ?thesis using j(1) by (intro exI[of _ "Suc j"]) simp
  qed
qed


lemma load_batch_loop_all_fail:
  "\<forall>i. failed_attempt (attempt s2i (api i ep)) \<Longrightarrow> int r \<le> m \<Longrightarrow>
   load_batch_loop api rnd s2i ep m r tr = (res, tr') \<Longrightarrow>
   res = RetPair None 0 \<and> int (length (requests tr')) = int (length (requests tr)) + (m - int r) + 1"
proof (induction api rnd s2i ep m r tr arbitrary: res tr' rule: load_batch_loop.induct)
  case (1 api rnd s2i ep m r tr)
  let ?tr1 = "tr\<lparr>requests := requests tr @ [ep]\<rparr>"
  let ?out = "attempt s2i (api (length (requests tr)) ep)"
  have f: "failed_attempt ?out" using "1.prems"(1) by blast
  show ?case
  proof (cases "int r < m")
    case False
    then have "res = RetPair None 0 \<and> tr' = ?tr1"
      using "1.prems"(2,3) f
      by (subst (asm) load_batch_loop.simps) (auto simp: Let_def split: attempt_outcome.splits)
    then show ?thesis using False "1.prems"(2) by simp
  next
    case True
    let ?tr2 = "wait_with_backoff rnd (Suc r) 2 ?tr1"
    from True f have rec: "load_batch_loop api rnd s2i ep m (Suc r) ?tr2 = (res, tr')"
      using "1.prems"(2,3)
      by (subst (asm) load_batch_loop.simps) (auto simp: Let_def split: attempt_outcome.splits)
    from True have le: "int (Suc r) \<le> m" by simp
    have "res = RetPair None 0 \<and>
      int (length (requests tr')) = int (length (requests ?tr2)) + (m - int (Suc r)) + 1"
    proof (cases ?out)
      case (Done x)
      with f show ?thesis by simp
    next
      case SoftFail
      show ?thesis
        by (rule "1.IH"(1)[OF _ refl SoftFail _ "1.prems"(1) le rec]) (use "1.prems"(2) True in auto)
    next
      case (Raised e)
      show ?thesis
        by (rule "1.IH"(2)[OF _ refl Raised _ "1.prems"(1) le rec]) (use "1.prems"(2) True in auto)
    qed
    then show ?thesis by (simp add: wait_with_backoff_def Let_def)
  qed
qed

lemma sleeps_no_trace: "sleeps no_trace = []" "requests no_trace = []"
  by (simp_all add: no_trace_def)

text \<open>
  C4 (as amended).  With \<open>max_retries \<ge> 0\<close> and random draws in \<open>[0, 1]\<close>,
  \<open>load_players_batch\<close> issues at least one and at most \<open>max_retries + 1\<close> requests and
  sleeps once between two consecutive requests; the sleep before retry number \<open>k + 1\<close>
  is \<open>2 * 2 ^ (k + 1)\<close> seconds plus the \<open>k\<close>-th random draw, so it lies between
  \<open>2 * 2 ^ (k + 1)\<close> and \<open>2 * 2 ^ (k + 1) + 1\<close>; and when every attempt fails, exactly
  \<open>max_retries + 1\<close> requests are made and the result is \<open>(None, 0)\<close>.
\<close>

theorem load_players_batch_backoff:
  assumes run: "load_players_batch api rnd s2i game_key start count' max_retries = (res, tr)"
    and m: "0 \<le> max_retries"
    and jitter: "\<forall>i. 0 \<le> rnd i \<and> rnd i \<le> 1"
  shows "1 \<le> length (requests tr) \<and> int (length (requests tr)) \<le> max_retries + 1 \<and>
    Suc (length (sleeps tr)) = length (requests tr) \<and>
    (\<forall>k < length (sleeps tr).
        sleeps tr ! k = 2 * 2 ^ Suc k + rnd k \<and>
        2 * 2 ^ Suc k \<le> sleeps tr ! k \<and> sleeps tr ! k \<le> 2 * 2 ^ Suc k + 1) \<and>
    ((\<forall>i e. failed_attempt (attempt s2i (api i e))) \<longrightarrow>
        res = RetPair None 0 \<and> int (length (requests tr)) = max_retries + 1)"
proof -
  let ?ep = "''/game/'' @ game_key @ ''/players;start='' @ py_str start @ '';count='' @ py_str count'"
  have run': "load_batch_loop api rnd s2i ?ep max_retries 0 no_trace = (res, tr)"
    using run by (simp add: load_players_batch_def)
  from load_batch_loop_trace[OF run'] m obtain j where j: "int j \<le> max_retries"
    "requests tr = replicate (Suc j) ?ep"
    "sleeps tr = map (\<lambda>i. 2 * 2 ^ (Suc i) + rnd i) [0..<j]"
    by (auto simp: sleeps_no_trace)
  have a: "1 \<le> length (requests tr) \<and> int (length (requests tr)) \<le> max_retries + 1 \<and>
    Suc (length (sleeps tr)) = length (requests tr)"
    using j by simp
  have b: "\<forall>k < length (sleeps tr).
        sleeps tr ! k = 2 * 2 ^ Suc k + rnd k \<and>
        2 * 2 ^ Suc k \<le> sleeps tr ! k \<and> sleeps tr ! k \<le> 2 * 2 ^ Suc k + 1"
    using j(3) jitter by simp
  have c: "(\<forall>i e. failed_attempt (attempt s2i (api i e))) \<longrightarrow>
        res = RetPair None 0 \<and> int (length (requests tr)) = max_retries + 1"
  proof
    assume "\<forall>i e. failed_attempt (attempt s2i (api i e))"
    then have "\<forall>i. failed_attempt (attempt s2i (api i ?ep))" by blast
    from load_batch_loop_all_fail[OF this _ run'] m show
      "res = RetPair None 0 \<and> int (length (requests tr)) = max_retries + 1"
      by (simp add: sleeps_no_trace)
  qed
  from a b c show ?thesis by blast
qed

theorem load_players_batch_backoff_witness:
  "fst (load_players_batch (\<lambda>i e. Inl ConnectionError) (\<lambda>i. 1 / 2) (\<lambda>s. None) ''449'' 0 25 3)
     = RetPair None 0 \<and>
   length (requests (snd (load_players_batch (\<lambda>i e. Inl ConnectionError) (\<lambda>i. 1 / 2)
     (\<lambda>s. None) ''449'' 0 25 3))) = 4 \<and>
   length (sleeps (snd (load_players_batch (\<lambda>i e. Inl ConnectionError) (\<lambda>i. 1 / 2)
     (\<lambda>s. None) ''449'' 0 25 3))) = 3"
  using load_players_batch_backoff [of "\<lambda>i e. Inl ConnectionError" "\<lambda>i. 1 / 2" "\<lambda>s. None"
      "''449''" 0 25 3, OF prod.collapse [symmetric]]
  by (simp add: attempt_def ebind_def)

text \<open>
  C4 as stated fails: with every request failing and every random draw equal to
  \<open>1/2\<close>, the three waits are 4.5, 8.5 and 16.5 seconds, not the fixed values 4, 8, 16.
\<close>

theorem load_players_batch_backoff_counterexample:
  "sleeps (snd (load_players_batch (\<lambda>i e. Inl ConnectionError) (\<lambda>i. 1 / 2) (\<lambda>s. None)
      ''449'' 0 25 3)) = [9 / 2, 17 / 2, 33 / 2] \<and>
   sleeps (snd (load_players_batch (\<lambda>i e. Inl ConnectionError) (\<lambda>i. 1 / 2) (\<lambda>s. None)
      ''449'' 0 25 3)) \<noteq> [2 * 2 ^ 1, 2 * 2 ^ 2, 2 * 2 ^ 3]"
  by (simp add: load_players_batch_def no_trace_def load_batch_loop.simps attempt_def ebind_def
      wait_with_backoff_def Let_def)

section \<open>Properties of the save methods: exceptions and transactions\<close>































lemmas db_eval = call_save.simps try_except_rollback_def sbind_def insert_stmt_def insert_values_def
  insert_or_replace_method_def pure_e_def cursor_execute_def cursor_query_def conn_commit_def
  conn_begin_def conn_cursor_def new_database_def ebind_def prepare_insert_def sql_insert_def
  col_def key_conflict_def next_rowid_def empty_table_def Let_def ev0_def





text \<open>A batch of two draft results whose second entry lacks \<open>'player_key'\<close>: the loop
  has inserted the first row when the \<open>KeyError\<close> is raised, and the rollback removes it.\<close>

lemma draft_results_partial_batch: "fst (draft_results_loop ev0 [pick1, pick2_bad] new_database) = Inl KeyError \<and>
  rows (working (snd (draft_results_loop ev0 [pick1, pick2_bad] new_database)) ''league_draft_results'')
   = [(1, [SText ''449.l.1'', SText ''2024'', SInt 1, SInt 1, SText ''449.l.1.t.1'', SText ''449.p.1'', SText ''2024-01-01 00:00:00''])]"
  by (simp add: db_eval league_draft_results_schema_def pick1_def pick2_bad_def)



section \<open>Properties of the save methods: rows per entity key\<close>

text \<open>
  \<open>INSERT OR REPLACE\<close> replaces only where the schema declares a key.  Into a table
  without \<open>PRIMARY KEY\<close> or \<open>UNIQUE\<close> columns other than the rowid it always appends a
  row; on a declared key with no \<open>NULL\<close> it leaves exactly one row with the new row's key.
\<close>

lemma sql_insert_without_keys_appends:
  assumes "unique_keys sch = []" and "sql_insert oc sch cols vals dbs = Inr dbs'"
  shows "\<exists>rid new. rows (dbs' (table_name sch)) = rows (dbs (table_name sch)) @ [(rid, new)]"
  using assms
  by (auto simp: sql_insert_def key_conflict_def Let_def split: if_splits)

lemma sql_insert_replace_one_row:
  assumes ins: "sql_insert Replace sch cols vals dbs = Inr dbs'"
    and k: "k \<in> set (unique_keys sch)"
    and new: "new = map (\<lambda>c. case map_of (zip cols vals) c of None \<Rightarrow> SNull | Some v \<Rightarrow> v)
                  (columns sch)"
    and nn: "\<forall>c \<in> set k. col sch new c \<noteq> SNull"
  shows "length (filter (\<lambda>ir. \<forall>c \<in> set k. col sch (snd ir) c = col sch new c)
           (rows (dbs' (table_name sch)))) = 1"
proof -
  let ?same = "\<lambda>ir. \<forall>c \<in> set k. col sch (snd ir) c = col sch new c"
  let ?kept = "filter (\<lambda>ir. \<not> key_conflict sch new (snd ir)) (rows (dbs (table_name sch)))"
  from ins new have r: "\<exists>rid. rows (dbs' (table_name sch)) = ?kept @ [(rid, new)]"
    by (auto simp: sql_insert_def Let_def split: if_splits)
  have "filter ?same ?kept = []"
  proof -
    have "\<And>ir. ?same ir \<Longrightarrow> key_conflict sch new (snd ir)"
      using k nn unfolding key_conflict_def list_ex_iff list_all_iff by blast
    then show ?thesis by (auto simp: filter_empty_conv)
  qed
  with r show ?thesis by auto
qed

text \<open>\<open>players\<close> declares \<open>player_key TEXT PRIMARY KEY\<close>: saving the same player twice
  leaves one row.\<close>

lemma save_player_replaces:
  "rows (committed (snd (save_player ev0 player1 (snd (save_player ev0 player1 new_database))))
     ''players'')
     = [(1, [SText ''449.p.100'', SText ''nfl'', SText ''A. Player'', SNull, SNull, SNull, SNull,
             SNull, SText ''{}'', SText ''2024-01-01 00:00:00''])]"
  by (simp add: db_eval save_player_def players_schema_def player1_def)

text \<open>
  C1, at the input where the code departs from it.  \<open>league_rosters\<close> has no key on
  \<open>(league_key, team_key, player_key, week)\<close>: two calls of \<open>save_league_roster\<close> with the
  same record on an empty database both return normally and leave two committed rows
  (rowids 1 and 2) with the same entity key values, where the claim has exactly one.
\<close>

theorem save_league_roster_duplicates:
  "fst (save_league_roster ev0 roster1 new_database) = Returned \<and>
   fst (save_league_roster ev0 roster1 (snd (save_league_roster ev0 roster1 new_database)))
     = Returned \<and>
   rows (committed (snd (save_league_roster ev0 roster1
           (snd (save_league_roster ev0 roster1 new_database)))) ''league_rosters'')
     = [(1, [SText ''449.l.1'', SText ''449.l.1.t.1'', SText ''449.p.100'', SText ''QB'', SInt 1,
             SInt 1, SText ''2024-01-01 00:00:00'']),
        (2, [SText ''449.l.1'', SText ''449.l.1.t.1'', SText ''449.p.100'', SText ''QB'', SInt 1,
             SInt 1, SText ''2024-01-01 00:00:00''])]"
  by (simp add: db_eval save_league_roster_def league_rosters_schema_def roster1_def)

section \<open>Properties of save\_league\_game\<close>

lemma emap_append:
  "emap f (xs @ ys) = ebind (emap f xs) (\<lambda>a. ebind (emap f ys) (\<lambda>b. Inr (a @ b)))"
  by (induction xs) (auto simp: ebind_def split: sum.splits)

lemma emap_length: "emap f xs = Inr ys \<Longrightarrow> length ys = length xs"
  by (induction xs arbitrary: ys) (auto simp: ebind_def split: sum.splits)

lemma eval_opt_params:
  "emap (eval_param ev g) (map (\<lambda>c. Opt c JNull) cs)
     = Inr (map (\<lambda>c. case map_of g c of None \<Rightarrow> JNull | Some v \<Rightarrow> v) cs)"
  by (induction cs) (simp_all add: ebind_def)

lemma map_of_zip_self:
  "distinct cs \<Longrightarrow> length vs = length cs \<Longrightarrow>
   map (\<lambda>c. case map_of (zip cs vs) c of None \<Rightarrow> d | Some v \<Rightarrow> v) cs = vs"
proof (induction cs vs rule: list_induct2')
  case (4 c cs v vs)
  then have "map (\<lambda>x. case map_of (zip (c # cs) (v # vs)) x of None \<Rightarrow> d | Some v \<Rightarrow> v) cs
      = map (\<lambda>x. case map_of (zip cs vs) x of None \<Rightarrow> d | Some v \<Rightarrow> v) cs"
    by (intro map_cong) auto
  with 4 show ?case by simp
qed simp_all

lemma mset_update_matching:
  "mset (map snd (map (\<lambda>ir. if P ir then (fst ir, new) else ir) rs))
     = mset (map snd (filter (\<lambda>ir. \<not> P ir) rs)) + replicate_mset (length (filter P rs)) new"
  by (induction rs) auto

lemma conflict_trans:
  assumes "unique_keys sch = [k]" "key_conflict sch new a" "key_conflict sch new b"
  shows "key_conflict sch a b"
  using assms by (auto simp: key_conflict_def list_all_iff)

lemma distinct_keys_one_match:
  assumes "unique_keys sch = [k]" "distinct_keys sch rs"
  shows "length (filter (\<lambda>ir. key_conflict sch new (snd ir)) rs) \<le> 1"
  using assms(2)
proof (induction rs)
  case Nil
  then show ?case by simp
next
  case (Cons ir rs)
  show ?case
  proof (cases "key_conflict sch new (snd ir)")
    case False
    with Cons show ?thesis by simp
  next
    case True
    have "filter (\<lambda>jr. key_conflict sch new (snd jr)) rs = []"
    proof -
      have "\<And>jr. jr \<in> set rs \<Longrightarrow> \<not> key_conflict sch new (snd jr)"
      proof
        fix jr assume "jr \<in> set rs" "key_conflict sch new (snd jr)"
        with True assms(1) have "key_conflict sch (snd ir) (snd jr)"
          using conflict_trans by blast
        with \<open>jr \<in> set rs\<close> Cons.prems show False by (auto simp: list_ex_iff)
      qed
      then show ?thesis by (auto simp: filter_empty_conv)
    qed
    with True show ?thesis by simp
  qed
qed


lemma conflict_is_where:
  "key_conflict league_games_keyed_schema ([a, b, c, e] @ rest) r
     = where_eq league_games_schema (zip league_game_key_columns [a, b, c, e]) r"
  by (simp add: key_conflict_def where_eq_def col_def league_games_keyed_schema_def
      league_games_schema_def league_games_columns_def league_game_key_columns_def conj_ac)

lemma len13: "length (ds :: 'a list) = 13 \<Longrightarrow>
  \<exists>d0 d1 d2 d3 d4 d5 d6 d7 d8 d9 d10 d11 d12. ds = [d0, d1, d2, d3, d4, d5, d6, d7, d8, d9, d10, d11, d12]"
  by (simp add: numeral_eq_Suc length_Suc_conv) blast

lemma len18: "length (r :: 'a list) = 18 \<Longrightarrow>
  \<exists>r0 r1 r2 r3 r4 r5 r6 r7 r8 r9 r10 r11 r12 r13 r14 r15 r16 r17.
     r = [r0, r1, r2, r3, r4, r5, r6, r7, r8, r9, r10, r11, r12, r13, r14, r15, r16, r17]"
  by (simp add: numeral_eq_Suc length_Suc_conv) blast


lemma update_gives_new_row:
  assumes r: "length r = 18" and ds: "length ds = 13"
    and w: "where_eq league_games_schema (zip league_game_key_columns [a, b, c, e]) r"
  shows "map (\<lambda>cv. case map_of (zip (league_game_data_columns @ [''updated_at'']) (ds @ [ts]))
                          (fst cv) of None \<Rightarrow> snd cv | Some v \<Rightarrow> v)
           (zip (columns league_games_schema) r) = [a, b, c, e] @ ds @ [ts]"
proof -
  from len18 [OF r] obtain r0 r1 r2 r3 r4 r5 r6 r7 r8 r9 r10 r11 r12 r13 r14 r15 r16 r17 where
    r': "r = [r0, r1, r2, r3, r4, r5, r6, r7, r8, r9, r10, r11, r12, r13, r14, r15, r16, r17]"
    by blast
  from len13 [OF ds] obtain d0 d1 d2 d3 d4 d5 d6 d7 d8 d9 d10 d11 d12 where
    ds': "ds = [d0, d1, d2, d3, d4, d5, d6, d7, d8, d9, d10, d11, d12]"
    by blast
  from w have k: "r0 = a" "r1 = b" "r2 = c" "r3 = e"
    unfolding r' by (simp_all add: where_eq_def col_def league_games_schema_def
        league_games_columns_def league_game_key_columns_def)
  show ?thesis
    unfolding r' ds' k
    by (simp add: league_games_schema_def league_games_columns_def league_game_data_columns_def)
qed


lemma eval_update_params:
  "emap (eval_param ev g) (league_game_data_params @ league_game_key_params)
     = ebind (emap (eval_param ev g) league_game_key_params) (\<lambda>kv.
         Inr (map (\<lambda>c. case map_of g c of None \<Rightarrow> JNull | Some v \<Rightarrow> v) league_game_data_columns @ kv))"
  by (simp add: emap_append league_game_data_params_def eval_opt_params ebind_def
      split: sum.splits)

lemma eval_insert_params:
  "emap (eval_param ev g) (league_game_key_params @ league_game_data_params @ [Current_timestamp])
     = ebind (emap (eval_param ev g) league_game_key_params) (\<lambda>kv.
         Inr (kv @ map (\<lambda>c. case map_of g c of None \<Rightarrow> JNull | Some v \<Rightarrow> v)
                    league_game_data_columns @ [JStr (now ev)]))"
  by (simp add: emap_append league_game_data_params_def eval_opt_params ebind_def
      split: sum.splits)

lemma prepare_games:
  "prepare_insert league_games_schema league_games_columns = Inr ()"
  "prepare_insert league_games_keyed_schema league_games_columns = Inr ()"
  by (simp_all add: prepare_insert_def league_games_schema_def league_games_keyed_schema_def
      list_all_iff)

lemma len4: "length (ks :: 'a list) = 4 \<Longrightarrow> \<exists>a b c e. ks = [a, b, c, e]"
  by (simp add: numeral_eq_Suc length_Suc_conv) blast

lemma key_params_length: "length league_game_key_params = 4"
  by (simp add: league_game_key_params_def)

lemma data_columns_length: "length league_game_data_columns = 13"
  by (simp add: league_game_data_columns_def)

lemma games_columns_facts: "distinct league_games_columns" "length league_games_columns = 18"
  by (simp_all add: league_games_columns_def)


lemma no_conflict_unkeyed: "\<not> key_conflict league_games_schema new old"
  by (simp add: key_conflict_def league_games_schema_def)

lemma new_row_games:
  "length vals = 18 \<Longrightarrow>
   map (\<lambda>c. case map_of (zip league_games_columns vals) c of None \<Rightarrow> SNull | Some v \<Rightarrow> v)
     league_games_columns = vals"
  by (rule map_of_zip_self) (simp_all add: games_columns_facts)

lemma schema_fields:
  "table_name league_games_schema = ''league_games''"
  "table_name league_games_keyed_schema = ''league_games''"
  "columns league_games_schema = league_games_columns"
  "columns league_games_keyed_schema = league_games_columns"
  "not_null league_games_schema = []" "not_null league_games_keyed_schema = []"
  "autoincrement league_games_schema" "autoincrement league_games_keyed_schema"
  "unique_keys league_games_keyed_schema = [league_game_key_columns]"
  by (simp_all add: league_games_schema_def league_games_keyed_schema_def)

lemma insert_no_match:
  assumes len: "length new = 18"
    and nomatch: "\<forall>ir \<in> set (rows (w ''league_games'')).
       \<not> key_conflict league_games_keyed_schema new (snd ir)"
  shows "sql_insert Abort league_games_schema league_games_columns new w
       = sql_insert Replace league_games_keyed_schema league_games_columns new w"
proof -
  have f: "filter (\<lambda>ir. \<not> key_conflict league_games_keyed_schema new (snd ir))
      (rows (w ''league_games'')) = rows (w ''league_games'')"
    using nomatch by (simp add: filter_id_conv)
  show ?thesis
    by (simp add: sql_insert_def schema_fields new_row_games [OF len] no_conflict_unkeyed f
        next_rowid_def Let_def list_ex_iff)
qed

lemma replace_payloads:
  assumes len: "length new = 18"
  shows "\<exists>w2. sql_insert Replace league_games_keyed_schema league_games_columns new w = Inr w2 \<and>
     payloads (w2 ''league_games'')
       = mset (map snd (filter (\<lambda>ir. \<not> key_conflict league_games_keyed_schema new (snd ir))
            (rows (w ''league_games'')))) + {#new#} \<and>
     (\<forall>n. n \<noteq> ''league_games'' \<longrightarrow> w2 n = w n)"
  by (simp add: sql_insert_def schema_fields new_row_games [OF len] Let_def payloads_def)

lemma update_payloads:
  assumes ok: "game_rows_ok (rows (w ''league_games''))"
    and ds: "length ds = 13"
    and found: "sql_select_id league_games_schema (zip league_game_key_columns [a, b, c, e]) w
       = Some i"
    and new: "new = [a, b, c, e] @ ds @ [ts]"
  shows "payloads (sql_update league_games_schema
           (zip (league_game_data_columns @ [''updated_at'']) (ds @ [ts]))
           (zip league_game_key_columns [a, b, c, e]) w ''league_games'')
       = mset (map snd (filter (\<lambda>ir. \<not> key_conflict league_games_keyed_schema new (snd ir))
            (rows (w ''league_games'')))) + {#new#}"
proof -
  define rs where "rs = rows (w ''league_games'')"
  define W where "W = (\<lambda>ir :: nat \<times> row.
     where_eq league_games_schema (zip league_game_key_columns [a, b, c, e]) (snd ir))"
  define upd where "upd = (\<lambda>r :: row. map (\<lambda>cv. case map_of
       (zip (league_game_data_columns @ [''updated_at'']) (ds @ [ts])) (fst cv) of
         None \<Rightarrow> snd cv | Some v \<Rightarrow> v) (zip league_games_columns r))"
  have cw: "\<And>ir. key_conflict league_games_keyed_schema new (snd ir) = W ir"
    unfolding new W_def by (rule conflict_is_where)
  have len: "\<And>ir. ir \<in> set rs \<Longrightarrow> length (snd ir) = 18"
    using ok unfolding rs_def by (simp add: game_rows_ok_def list_all_iff)
  have u: "\<And>ir. ir \<in> set rs \<Longrightarrow> W ir \<Longrightarrow> upd (snd ir) = new"
    unfolding upd_def new W_def
    using update_gives_new_row [OF len ds] by (simp only: schema_fields)
  have m: "map (\<lambda>ir. if W ir then (fst ir, upd (snd ir)) else ir) rs
         = map (\<lambda>ir. if W ir then (fst ir, new) else ir) rs"
    by (rule map_cong [OF refl]) (simp add: u)
  have dk: "distinct_keys league_games_keyed_schema rs"
    using ok unfolding rs_def by (simp add: game_rows_ok_def)
  have "length (filter (\<lambda>ir. key_conflict league_games_keyed_schema new (snd ir)) rs) \<le> 1"
    by (rule distinct_keys_one_match [OF schema_fields(9) dk])
  then have le: "length (filter W rs) \<le> 1" by (simp only: cw)
  have "find W rs \<noteq> None"
    using found unfolding sql_select_id_def W_def rs_def schema_fields by auto
  then have "filter W rs \<noteq> []"
    by (auto simp: find_None_iff filter_empty_conv)
  with le have one: "length (filter W rs) = 1"
    by (cases "filter W rs") auto
  have "payloads (sql_update league_games_schema
           (zip (league_game_data_columns @ [''updated_at'']) (ds @ [ts]))
           (zip league_game_key_columns [a, b, c, e]) w ''league_games'')
      = mset (map snd (map (\<lambda>ir. if W ir then (fst ir, upd (snd ir)) else ir) rs))"
    unfolding W_def upd_def rs_def
    by (simp add: sql_update_def payloads_def schema_fields Let_def)
  also have "\<dots> = mset (map snd (filter (\<lambda>ir. \<not> W ir) rs)) + {#new#}"
    unfolding m mset_update_matching one by simp
  finally show ?thesis unfolding rs_def by (simp only: cw)
qed

lemma update_others:
  "n \<noteq> ''league_games'' \<Longrightarrow> sql_update league_games_schema sets conds w n = w n"
  by (simp add: sql_update_def schema_fields Let_def)


lemmas game_steps = save_league_game_def upsert_league_game_def insert_or_replace_method_def
  select_league_game_def update_league_game_def insert_league_game_def insert_stmt_def
  insert_values_def sbind_def pure_e_def cursor_query_def cursor_execute_def conn_commit_def
  try_except_rollback_def eval_update_params eval_insert_params prepare_games ebind_def Let_def

text \<open>
  C2 (as amended).  On a \<open>league_games\<close> table in which no two rows share the same four
  key values (and every row has its 18 columns), \<open>save_league_game\<close> and the single
  \<open>INSERT OR REPLACE\<close> keyed on those columns have the same outcome, log the same errors
  and leave the same rows up to the rowid (\<open>id\<close>) and the order of the rows: the stored
  rows without their ids are the same multiset, in the visible and in the committed state,
  and every other table is the same.
\<close>

theorem save_league_game_refines_upsert:
  assumes ok: "game_rows_ok (rows (working d ''league_games''))"
    and r1: "save_league_game ev g d = (out1, d1)"
    and r2: "upsert_league_game ev g d = (out2, d2)"
  shows "out1 = out2 \<and> logged d1 = logged d2 \<and> closed d1 = closed d2 \<and> in_txn d1 = in_txn d2 \<and>
    (\<forall>n. n \<noteq> ''league_games'' \<longrightarrow> working d1 n = working d2 n \<and> committed d1 n = committed d2 n) \<and>
    payloads (working d1 ''league_games'') = payloads (working d2 ''league_games'') \<and>
    payloads (committed d1 ''league_games'') = payloads (committed d2 ''league_games'')"
proof -
  define dv where
    "dv = map (\<lambda>c. case map_of g c of None \<Rightarrow> JNull | Some v \<Rightarrow> v) league_game_data_columns"
  have dvlen: "length dv = 13" by (simp add: dv_def data_columns_length)
  have same: ?thesis if "save_league_game ev g d = upsert_league_game ev g d"
    using that r1 r2 by simp
  show ?thesis
  proof (cases "emap (eval_param ev g) league_game_key_params")
    case (Inl e)
    show ?thesis by (rule same) (simp add: game_steps Inl)
  next
    case kv: (Inr kv)
    have kvlen: "length kv = 4"
      using emap_length [OF kv] by (simp add: key_params_length)
    show ?thesis
    proof (cases "closed d")
      case True
      show ?thesis by (rule same) (simp add: game_steps kv True)
    next
      case op: False
      show ?thesis
      proof (cases "emap bind kv")
        case (Inl e)
        show ?thesis
          by (rule same) (simp add: game_steps kv op Inl emap_append [of bind])
      next
        case ks: (Inr ks)
        from emap_length [OF ks] kvlen have "length ks = 4" by simp
        from len4 [OF this] obtain a b c e where ks': "ks = [a, b, c, e]" by blast
        show ?thesis
        proof (cases "emap bind dv")
          case (Inl e')
          show ?thesis
            by (rule same)
              (simp add: game_steps kv op ks Inl emap_append [of bind] dv_def [symmetric]
                split: option.splits)
        next
          case ds: (Inr ds)
          from emap_length [OF ds] dvlen have dslen: "length ds = 13" by simp
          define new where "new = [a, b, c, e] @ ds @ [SText (now ev)]"
          have newlen: "length new = 18" by (simp add: new_def dslen)
          have bound_ins: "emap bind (kv @ dv @ [JStr (now ev)]) = Inr new"
            by (simp add: emap_append [of bind] ks ds ebind_def new_def ks')
          have bound_upd: "emap bind (dv @ kv) = Inr (ds @ [a, b, c, e])"
            by (simp add: emap_append [of bind] ks ds ebind_def ks')
          show ?thesis
          proof (cases "sql_select_id league_games_schema
                          (zip league_game_key_columns [a, b, c, e]) (working d)")
            case None
            then have "\<forall>ir \<in> set (rows (working d ''league_games'')).
                \<not> where_eq league_games_schema (zip league_game_key_columns [a, b, c, e]) (snd ir)"
              by (auto simp: sql_select_id_def schema_fields find_None_iff)
            then have "\<forall>ir \<in> set (rows (working d ''league_games'')).
                \<not> key_conflict league_games_keyed_schema new (snd ir)"
              unfolding new_def conflict_is_where .
            from insert_no_match [of new "working d", OF newlen this]
            show ?thesis
              by (intro same)
                (simp add: game_steps kv op ks ks' None bound_ins dv_def [symmetric])
          next
            case (Some i)
            from replace_payloads [OF newlen, of "working d"] obtain w2 where
              w2: "sql_insert Replace league_games_keyed_schema league_games_columns new (working d)
                     = Inr w2"
                "payloads (w2 ''league_games'')
                   = mset (map snd (filter (\<lambda>ir. \<not> key_conflict league_games_keyed_schema new (snd ir))
                        (rows (working d ''league_games'')))) + {#new#}"
                "\<forall>n. n \<noteq> ''league_games'' \<longrightarrow> w2 n = working d n"
              by blast
            define w1 where "w1 = sql_update league_games_schema
                (zip (league_game_data_columns @ [''updated_at'']) (ds @ [SText (now ev)]))
                (zip league_game_key_columns [a, b, c, e]) (working d)"
            have p1: "payloads (w1 ''league_games'') = payloads (w2 ''league_games'')"
              unfolding w1_def w2(2)
              by (rule update_payloads [OF ok dslen Some new_def])
            have o1: "\<forall>n. n \<noteq> ''league_games'' \<longrightarrow> w1 n = w2 n"
              using w2(3) by (simp add: w1_def update_others)
            have e1: "save_league_game ev g d
                = (Returned, d\<lparr>working := w1, committed := w1, in_txn := False\<rparr>)"
              by (simp add: game_steps kv op ks ks' Some bound_upd dv_def [symmetric] dslen w1_def)
            have e2: "upsert_league_game ev g d
                = (Returned, d\<lparr>working := w2, committed := w2, in_txn := False\<rparr>)"
              by (simp add: game_steps kv op bound_ins dv_def [symmetric] w2(1))
            from e1 e2 r1 r2 p1 o1 show ?thesis by auto
          qed
        qed
      qed
    qed
  qed
qed

lemma one_game_ok: "game_rows_ok (rows (working one_game ''league_games''))"
  by code_simp

theorem save_league_game_refines_upsert_witness:
  "fst (save_league_game ev0 game1 one_game) = fst (upsert_league_game ev0 game1 one_game) \<and>
   payloads (working (snd (save_league_game ev0 game1 one_game)) ''league_games'')
     = payloads (working (snd (upsert_league_game ev0 game1 one_game)) ''league_games'') \<and>
   payloads (committed (snd (save_league_game ev0 game1 one_game)) ''league_games'')
     = payloads (committed (snd (upsert_league_game ev0 game1 one_game)) ''league_games'')"
  using save_league_game_refines_upsert [OF one_game_ok prod.collapse [symmetric]
      prod.collapse [symmetric], of ev0 game1]
  by blast

lemma one_game_reached:
  "working (snd (save_league_game ev0 game0 new_database)) ''league_games''
     = working one_game ''league_games''"
  by code_simp

lemma code_one: "rows (working (snd (save_league_game ev0 game1 one_game)) ''league_games'')
     = [(1, game_row ''postevent'')]"
  by code_simp

lemma upsert_one: "rows (working (snd (upsert_league_game ev0 game1 one_game)) ''league_games'')
     = [(2, game_row ''postevent'')]"
  by code_simp

lemma code_two: "rows (working (snd (save_league_game ev0 game1 two_games)) ''league_games'')
     = [(1, game_row ''postevent''), (2, game_row ''postevent'')]"
  by code_simp

lemma upsert_two: "rows (working (snd (upsert_league_game ev0 game1 two_games)) ''league_games'')
     = [(3, game_row ''postevent'')]"
  by code_simp

text \<open>
  C2 as stated fails.  With the game stored once, \<open>save_league_game\<close> keeps the row's id 1
  where the \<open>INSERT OR REPLACE\<close> deletes it and inserts a row with id 2; with the game
  stored twice, \<open>save_league_game\<close> updates both rows where the upsert leaves one.
\<close>

theorem save_league_game_refines_upsert_counterexample:
  "rows (working (snd (save_league_game ev0 game1 one_game)) ''league_games'')
     = [(1, game_row ''postevent'')] \<and>
   rows (working (snd (upsert_league_game ev0 game1 one_game)) ''league_games'')
     = [(2, game_row ''postevent'')] \<and>
   working (snd (save_league_game ev0 game1 one_game)) ''league_games''
     \<noteq> working (snd (upsert_league_game ev0 game1 one_game)) ''league_games'' \<and>
   rows (working (snd (save_league_game ev0 game1 two_games)) ''league_games'')
     = [(1, game_row ''postevent''), (2, game_row ''postevent'')] \<and>
   rows (working (snd (upsert_league_game ev0 game1 two_games)) ''league_games'')
     = [(3, game_row ''postevent'')] \<and>
   payloads (working (snd (save_league_game ev0 game1 two_games)) ''league_games'')
     \<noteq> payloads (working (snd (upsert_league_game ev0 game1 two_games)) ''league_games'')"
proof -
  have a: "working (snd (save_league_game ev0 game1 one_game)) ''league_games''
     \<noteq> working (snd (upsert_league_game ev0 game1 one_game)) ''league_games''"
  proof
    assume "working (snd (save_league_game ev0 game1 one_game)) ''league_games''
      = working (snd (upsert_league_game ev0 game1 one_game)) ''league_games''"
    then have "rows (working (snd (save_league_game ev0 game1 one_game)) ''league_games'')
      = rows (working (snd (upsert_league_game ev0 game1 one_game)) ''league_games'')"
      by (rule arg_cong)
    then show False unfolding code_one upsert_one by simp
  qed
  have b: "payloads (working (snd (save_league_game ev0 game1 two_games)) ''league_games'')
     \<noteq> payloads (working (snd (upsert_league_game ev0 game1 two_games)) ''league_games'')"
  proof
    assume "payloads (working (snd (save_league_game ev0 game1 two_games)) ''league_games'')
     = payloads (working (snd (upsert_league_game ev0 game1 two_games)) ''league_games'')"
    then have "size (payloads (working (snd (save_league_game ev0 game1 two_games)) ''league_games''))
     = size (payloads (working (snd (upsert_league_game ev0 game1 two_games)) ''league_games''))"
      by (rule arg_cong)
    then show False unfolding payloads_def code_two upsert_two by simp
  qed
  from code_one upsert_one a code_two upsert_two b show ?thesis by blast
qed

section \<open>Properties of the dashboard queries\<close>

text \<open>The text of \<open>display_player_stats\<close> does not depend on its inputs; the text of
  \<open>load_leagues\<close> determines its input.\<close>

lemma display_player_stats_parameterized:
  "sql_text (display_player_stats league_key week) = sql_text (display_player_stats league_key' week')"
  by (simp add: display_player_stats_def)

lemma load_leagues_text_injective:
  "sql_text (load_leagues s) = sql_text (load_leagues s') \<longleftrightarrow> s = s'"
  by (simp add: load_leagues_def)

lemma league_info_query_text_injective:
  "sql_text (league_info_query s) = sql_text (league_info_query s') \<longleftrightarrow> s = s'"
  by (simp add: league_info_query_def load_table_data_def)

text \<open>
  C5, at the inputs where the code departs from it.  \<open>load_leagues\<close> submits the season
  inside the SQL text and binds no parameter: the texts for the seasons 2023 and 2024
  differ, and a season value containing quotes changes the statement itself.
\<close>

theorem load_leagues_not_parameterized:
  "sql_text (load_leagues ''2023'') = ''SELECT league_key, name FROM leagues WHERE season = '' @ [CHR 0x27] @ ''2023'' @ [CHR 0x27] \<and>
   sql_text (load_leagues ''2023'') \<noteq> sql_text (load_leagues ''2024'') \<and>
   sql_params (load_leagues ''2023'') = [] \<and>
   sql_text (load_leagues (''x'' @ [CHR 0x27] @ '' OR '' @ [CHR 0x27] @ ''1'' @ [CHR 0x27] @ ''='' @ [CHR 0x27] @ ''1''))
     = ''SELECT league_key, name FROM leagues WHERE season = '' @ [CHR 0x27] @ ''x'' @ [CHR 0x27] @ '' OR '' @ [CHR 0x27] @ ''1'' @ [CHR 0x27] @ ''='' @ [CHR 0x27] @ ''1'' @ [CHR 0x27]"
  by (simp add: load_leagues_def)

section \<open>Properties of get\_players\<close>



















section \<open>Properties of get\_games\<close>

lemma lex_pair_le:
  "((a :: 'a :: linorder), (b :: 'b :: linorder)) \<le> (c, d) \<longleftrightarrow> a < c \<or> (a = c \<and> b \<le> d)"
  by (auto simp: less_eq_prod_def)

lemma code_rank_strings:
  "code_rank (JStr a) < code_rank (JStr b) \<longleftrightarrow> a < b"
  "code_rank (JStr a) = code_rank (JStr b) \<longleftrightarrow> a = b"
  by (simp_all add: less_prod_def)

text \<open>
  C10.  Whenever \<open>get_games\<close> returns a list, it is sorted by the code ascending (for
  string codes \<open>code_rank\<close> is the order of the strings, see \<open>code_rank_strings\<close>) and,
  among games with equal codes, by the season as an integer descending.
\<close>

theorem get_games_sorted:
  assumes "get_games make_request s2i sport_codes seasons = Inr sorted_games"
  shows "sorted_wrt (\<lambda>a b.
            code_rank (game_code a) < code_rank (game_code b) \<or>
            (code_rank (game_code a) = code_rank (game_code b) \<and>
             game_season s2i b \<le> game_season s2i a)) sorted_games"
proof -
  from assms obtain games_list where
    "py_sorted_games s2i games_list = Inr sorted_games"
    by (auto simp: get_games_def ebind_def split: sum.splits)
  then have "sorted_games = sort_key (rank_key s2i) games_list"
    by (auto simp: py_sorted_games_def ebind_def split: sum.splits if_splits)
  then have "sorted (map (rank_key s2i) sorted_games)"
    by (simp add: sorted_sort_key)
  then have "sorted_wrt (\<lambda>a b. rank_key s2i a \<le> rank_key s2i b) sorted_games"
    by (simp add: sorted_map)
  then show ?thesis
    by (rule sorted_wrt_mono_rel [rotated]) (auto simp: rank_key_def lex_pair_le)
qed

lemma get_games_sample:
  "get_games games_api parse_year Sport_none None
     = Inr [game_info ''422'' ''mlb'' ''2023'', game_info ''449'' ''nfl'' ''2024'',
            game_info ''423'' ''nfl'' ''2023'']"
  by code_simp

theorem get_games_sorted_witness:
  "get_games games_api parse_year Sport_none None
     = Inr [game_info ''422'' ''mlb'' ''2023'', game_info ''449'' ''nfl'' ''2024'',
            game_info ''423'' ''nfl'' ''2023''] \<and>
   sorted_wrt (\<lambda>a b.
       code_rank (game_code a) < code_rank (game_code b) \<or>
       (code_rank (game_code a) = code_rank (game_code b) \<and>
        game_season parse_year b \<le> game_season parse_year a))
     [game_info ''422'' ''mlb'' ''2023'', game_info ''449'' ''nfl'' ''2024'',
      game_info ''423'' ''nfl'' ''2023'']"
  using get_games_sorted [OF get_games_sample] get_games_sample by blast

lemma py_sorted_games_mixed_codes:
  "py_sorted_games parse_year [[(''season'', JStr ''2023'')], game_info ''449'' ''nfl'' ''2024'']
     = Inl TypeError"
  by code_simp

lemma py_sorted_games_bad_season:
  "py_sorted_games parse_year [game_info ''449'' ''nfl'' ''twenty'']
     = Inl ValueError"
  by code_simp

section \<open>Properties of make\_request\<close>

lemma get_calls_log_error [simp]: "get_calls (log_error e c) = get_calls c"
  by (simp add: log_error_def)

lemma token_log_error [simp]: "token (log_error e c) = token c"
  by (simp add: log_error_def)

lemma token_file_log_error [simp]: "token_file (log_error e c) = token_file c"
  by (simp add: log_error_def)

lemma token_posts_log_error [simp]: "token_posts (log_error e c) = token_posts c"
  by (simp add: log_error_def)

lemma save_token_fields [simp]:
  "get_calls (save_token w tok c) = get_calls c"
  "token (save_token w tok c) = token c"
  "token_posts (save_token w tok c) = token_posts c"
  by (simp_all add: save_token_def split: write_outcome.splits)

lemma save_token_error_log:
  "error_log (save_token w tok c) =
     (if file_write w = Written then error_log c else error_log c @ [Error_saving_token])"
  by (simp add: save_token_def log_error_def split: write_outcome.splits)























end
